theory Spec2Isabelle
  imports Main
begin

section \<open>Strings\<close>

text \<open>
  Python strings are modelled as \<open>string\<close> (lists of characters).  The characters below 128
  are the ASCII characters; a character outside ASCII is written with characters from 128 on
  (its UTF-8 bytes).  The case conversions \<open>str_lower\<close>, \<open>str_upper\<close> and \<open>capitalize\<close> act on
  the ASCII letters and leave every other character as it is.
\<close>

definition ascii_uppercase :: string where
  "ascii_uppercase = ''ABCDEFGHIJKLMNOPQRSTUVWXYZ''"

definition ascii_lowercase :: string where
  "ascii_lowercase = ''abcdefghijklmnopqrstuvwxyz''"

definition lower_char :: "char \<Rightarrow> char" where
  "lower_char c =
     (case map_of (zip ascii_uppercase ascii_lowercase) c of None \<Rightarrow> c | Some d \<Rightarrow> d)"

definition upper_char :: "char \<Rightarrow> char" where
  "upper_char c =
     (case map_of (zip ascii_lowercase ascii_uppercase) c of None \<Rightarrow> c | Some d \<Rightarrow> d)"

text \<open>\<^verbatim>\<open>s.lower()\<close>, \<^verbatim>\<open>s.upper()\<close> and \<^verbatim>\<open>s.capitalize()\<close>.\<close>

definition str_lower :: "string \<Rightarrow> string" where
  "str_lower s = map lower_char s"

definition str_upper :: "string \<Rightarrow> string" where
  "str_upper s = map upper_char s"

definition capitalize :: "string \<Rightarrow> string" where
  "capitalize s = (case s of [] \<Rightarrow> [] | c # cs \<Rightarrow> upper_char c # str_lower cs)"

text \<open>
  \<^verbatim>\<open>s.upper()\<close> where the letters outside ASCII matter: some of them have an upper-case
  form made of ASCII letters (the long s becomes \<^verbatim>\<open>S\<close>, the dotless i becomes \<^verbatim>\<open>I\<close>), so a
  string with such a letter can be equal to an ASCII word once it is converted.  The
  conversion of a string with a character outside ASCII is given by Python's Unicode
  tables, which are a parameter here.
\<close>

definition is_ascii :: "char \<Rightarrow> bool" where
  "is_ascii c = (\<not> digit7 c)"

definition py_upper :: "(string \<Rightarrow> string) \<Rightarrow> string \<Rightarrow> string" where
  "py_upper table s = (if list_all is_ascii s then str_upper s else table s)"

text \<open>\<^verbatim>\<open>sub in s\<close> on strings: \<open>sub\<close> occurs in \<open>s\<close> as a contiguous block.\<close>

fun str_contains :: "string \<Rightarrow> string \<Rightarrow> bool" where
  "str_contains sub [] = (sub = [])"
| "str_contains sub (c # cs) = (take (length sub) (c # cs) = sub \<or> str_contains sub cs)"

text \<open>\<^verbatim>\<open>str(n)\<close> for a natural number: its decimal digits.\<close>

definition digit_char :: "nat \<Rightarrow> char" where
  "digit_char d = ''0123456789'' ! d"

fun str_nat :: "nat \<Rightarrow> string" where
  "str_nat n =
     (if n < 10 then [digit_char n] else str_nat (n div 10) @ [digit_char (n mod 10)])"

declare str_nat.simps [simp del]

section \<open>Template values and resources\<close>

text \<open>
  The values that the templating library stores in a resource: plain strings, numbers and
  booleans, the helper functions \<^verbatim>\<open>Ref\<close>, \<^verbatim>\<open>GetAtt\<close>, \<^verbatim>\<open>Join\<close> and \<^verbatim>\<open>Sub\<close>, lists, and
  dictionaries (tag entries, port ranges and other property objects).
\<close>

datatype val =
    Str string
  | Num int
  | Bool bool
  | RefV string
  | GetAttV string string
  | Join string "val list"
  | Sub string
  | ListV "val list"
  | Dict "(string \<times> val) list"

text \<open>
  The \<^verbatim>\<open>Metadata\<close> dictionary that \<^verbatim>\<open>ec2.py\<close> attaches to subnets, NAT gateways and
  private route tables always has exactly the three keys \<^verbatim>\<open>az\<close> (a string),
  \<^verbatim>\<open>az_index\<close> (a string) and \<^verbatim>\<open>suffix\<close> (the loop index plus one).
\<close>

record metadata =
  m_az :: string
  m_az_index :: string
  m_suffix :: nat

text \<open>
  A resource object: its title, the \<^verbatim>\<open>Type\<close> entry of its \<^verbatim>\<open>resource\<close> dictionary, its
  properties and its \<^verbatim>\<open>Metadata\<close> attribute (\<open>None\<close> while the attribute was never set).
\<close>

record resource =
  title :: string
  rtype :: string
  Properties :: "string \<rightharpoonup> val"
  Metadata :: "metadata option"

text \<open>\<^verbatim>\<open>Ref(obj)\<close> and \<^verbatim>\<open>GetAtt(obj, attr)\<close> refer to the object by its title.\<close>

definition Ref :: "resource \<Rightarrow> val" where
  "Ref obj = RefV (title obj)"

definition GetAtt :: "resource \<Rightarrow> string \<Rightarrow> val" where
  "GetAtt obj attr = GetAttV (title obj) attr"

definition Region :: val where
  "Region = RefV ''AWS::Region''"

definition AccountId :: val where
  "AccountId = RefV ''AWS::AccountId''"

text \<open>Construction of a resource of a given type, and assignment to one property.\<close>

definition new_resource :: "string \<Rightarrow> string \<Rightarrow> (string \<times> val) list \<Rightarrow> resource" where
  "new_resource ty t kwargs =
     \<lparr>title = t, rtype = ty, Properties = map_of kwargs, Metadata = None\<rparr>"

definition set_prop :: "string \<Rightarrow> val \<Rightarrow> resource \<Rightarrow> resource" where
  "set_prop k v obj = obj\<lparr>Properties := (Properties obj)(k \<mapsto> v)\<rparr>"

text \<open>
  Exceptions.  \<open>Propagated e\<close> is an exception \<open>e\<close> that escapes from the external
  network-splitting helper; the other constructors are raised by the code modelled here.
\<close>

datatype 'e error =
    ValueError string
  | NotImplementedError string
  | AttributeError string
  | Propagated 'e

text \<open>
  The check of a title that the templating library runs when a resource object is
  constructed: a title that is not empty has to match \<^verbatim>\<open>^[a-zA-Z0-9]+$\<close>, where \<^verbatim>\<open>$\<close> also
  matches before a newline that ends the string; otherwise the constructor raises
  \<^verbatim>\<open>ValueError\<close>.

  The titles that the code passes to the constructors are of three kinds.  A literal,
  possibly followed by a decimal number, always passes the check.  A title built from the
  result of \<^verbatim>\<open>alphanum\<close>, the helper that the code calls to that end, is taken to pass it.
  For a title built from another argument or from a zone name the check is part of the
  model: these are the title of the VPC and the title of a NAT route.
\<close>

definition is_alnum :: "char \<Rightarrow> bool" where
  "is_alnum c = (c \<in> set (ascii_lowercase @ ascii_uppercase @ ''0123456789''))"

definition valid_names :: "string \<Rightarrow> bool" where
  "valid_names t =
     (let s = (if t \<noteq> [] \<and> last t = CHR 0x0A then butlast t else t)
      in s \<noteq> [] \<and> list_all is_alnum s)"

definition validate_title :: "string \<Rightarrow> 'e error option" where
  \<open>validate_title t =
     (if t = [] \<or> valid_names t then None
      else Some (ValueError (''Name "'' @ t @ ''" not alphanumeric'')))\<close>

text \<open>
  The two helpers imported from the external library: \<^verbatim>\<open>alphanum\<close> and
  \<^verbatim>\<open>split_net_across_zones\<close>.  Their code is not part of this repository, so they are
  parameters of the model.  A network segment is the dictionary with the keys \<^verbatim>\<open>az\<close> and
  \<^verbatim>\<open>cidr\<close> that the splitting helper returns.
\<close>

record net_segment =
  az :: string
  cidr :: string

record 'e pawslib =
  alphanum :: "string \<Rightarrow> string"
  split_net_across_zones :: "string \<Rightarrow> string \<Rightarrow> int \<Rightarrow> 'e + net_segment list"

text \<open>
  Two more things that the code relies on and that are not part of this repository:
  Python's upper-casing of a string with characters outside ASCII, and the check that the
  templating library runs when a value is assigned to the \<^verbatim>\<open>TimeoutInMillis\<close> property of
  an Integration.  The check is given by the message of the \<^verbatim>\<open>ValueError\<close> it raises, and
  is \<open>None\<close> for a value it accepts.
\<close>

record runtime =
  unicode_upper :: "string \<Rightarrow> string"
  timeout_in_millis :: "int \<Rightarrow> string option"

section \<open>HTTP API (apigatewayv2.py)\<close>

text \<open>
  The keys of \<^verbatim>\<open>HttpApi.resources\<close> are title strings or, where the code uses an object
  as the key, the object itself.
\<close>

datatype key = KStr string | KObj resource

record HttpApi =
  h_name :: string
  h_clean_name :: string
  h_description :: "string option"
  h_resources :: "key \<rightharpoonup> resource"
  h_t_api :: resource

definition HttpApi_init :: "'e pawslib \<Rightarrow> string \<Rightarrow> string option \<Rightarrow> HttpApi" where
  "HttpApi_init lib name description =
     (let clean_name = alphanum lib name;
          t_api = new_resource ''AWS::ApiGatewayV2::Api'' (clean_name @ ''HTTPApi'')
                    [(''ProtocolType'', Str ''HTTP''), (''Name'', Str name)];
          t_api = (case description of None \<Rightarrow> t_api
                   | Some d \<Rightarrow> set_prop ''Description'' (Str d) t_api)
      in \<lparr>h_name = name, h_clean_name = clean_name, h_description = description,
          h_resources = [KStr (title t_api) \<mapsto> t_api], h_t_api = t_api\<rparr>)"

definition log_formats :: "string list" where
  "log_formats = [''none'', ''clf'', ''json'', ''xml'', ''csv'']"

definition clf_format :: string where
  \<open>clf_format = ''$context.identity.sourceIp - - [$context.requestTime] "$context.httpMethod $context.routeKey $context.protocol" $context.status $context.responseLength $context.requestId''\<close>

definition json_format :: string where
  \<open>json_format = ''{"requestId": "$context.requestId", "ip": "$context.identity.sourceIp", "requestTime": "$context.requestTime", "httpMethod": "$context.httpMethod", "routeKey": "$context.routeKey", "status": "$context.status", "protocol": "$context.protocol", "responseLength": "$context.responseLength"}''\<close>

definition xml_format :: string where
  \<open>xml_format = ''<request id="$context.requestId"> <ip>$context.identity.sourceIp</ip> <requestTime>$context.requestTime</requestTime> <httpMethod>$context.httpMethod</httpMethod> <routeKey>$context.routeKey</routeKey> <status>$context.status</status> <protocol>$context.protocol</protocol> <responseLength>$context.responseLength</responseLength> </request>''\<close>

definition csv_format :: string where
  "csv_format = ''$context.identity.sourceIp,$context.requestTime,$context.httpMethod,$context.routeKey,$context.protocol,$context.status,$context.responseLength,$context.requestId''"

text \<open>
  The local objects that \<^verbatim>\<open>add_stage\<close> builds after its check: the stage, and the
  access-log settings (a property object, here a dictionary) unless the format is
  \<^verbatim>\<open>none\<close>.
\<close>

definition add_stage_objects ::
  "'e pawslib \<Rightarrow> string \<Rightarrow> bool \<Rightarrow> string \<Rightarrow> HttpApi \<Rightarrow> resource \<times> val option" where
  "add_stage_objects lib name auto_deploy log_format self =
     (let api_stage = new_resource ''AWS::ApiGatewayV2::Stage'' (alphanum lib name @ ''Stage'')
                        [(''ApiId'', Ref (h_t_api self)), (''StageName'', Str name)];
          api_stage_log =
            (if str_lower log_format \<noteq> ''none'' then
               (let dest = (''DestinationArn'',
                      Join '':'' [Str ''arn'', Str ''aws'', Str ''logs'', Region, AccountId,
                                  Str (h_clean_name self @ ''HttpApi''), Str (alphanum lib name)])
                in if str_lower log_format = ''clf'' then
                     Some (Dict [dest, (''Format'', Str clf_format)])
                   else if str_lower log_format = ''json'' then
                     Some (Dict [dest, (''Format'', Str json_format)])
                   else if str_lower log_format = ''xml'' then
                     Some (Dict [dest, (''Format'', Str xml_format)])
                   else if str_lower log_format = ''csv'' then
                     Some (Dict [dest, (''Format'', Str csv_format)])
                   else Some (Dict [dest]))
             else None);
          api_stage = set_prop ''AutoDeploy'' (Bool auto_deploy) api_stage
      in (api_stage, api_stage_log))"

text \<open>
  A method returns the exception it raised (\<open>None\<close> when it returned normally) together
  with the object as the call leaves it.  \<^verbatim>\<open>add_stage\<close> assigns its objects to local
  variables only.
\<close>

definition add_stage ::
  "'e pawslib \<Rightarrow> string \<Rightarrow> bool \<Rightarrow> string \<Rightarrow> HttpApi \<Rightarrow> 'e error option \<times> HttpApi" where
  "add_stage lib name auto_deploy log_format self =
     (if str_lower log_format \<in> set log_formats
         \<or> str_contains ''$context.requestId'' log_format
      then (let (api_stage, api_stage_log) =
                  add_stage_objects lib name auto_deploy log_format self
            in (None, self))
      else (Some (ValueError (log_format @ '' is not a valid log format'')), self))"

text \<open>Whether a call raised \<^verbatim>\<open>ValueError\<close>, whatever the message.\<close>

definition raises_ValueError :: "'e error option \<Rightarrow> bool" where
  "raises_ValueError raised =
     (case raised of Some (ValueError message) \<Rightarrow> True | _ \<Rightarrow> False)"

definition http_methods :: "string list" where
  "http_methods =
     [''ANY'', ''GET'', ''POST'', ''PUT'', ''PATCH'', ''HEAD'', ''DELETE'', ''OPTIONS'']"

definition route_integration ::
  "'e pawslib \<Rightarrow> string \<Rightarrow> string \<Rightarrow> string \<Rightarrow> int \<Rightarrow> string option \<Rightarrow> HttpApi \<Rightarrow> resource" where
  "route_integration lib path target http_method timeout description self =
     (let api_integration =
            new_resource ''AWS::ApiGatewayV2::Integration'' (alphanum lib path @ ''Integration'')
              [(''ApiId'', Ref (h_t_api self))];
          api_integration = (case description of None \<Rightarrow> api_integration
                             | Some d \<Rightarrow> set_prop ''Description'' (Str d) api_integration);
          api_integration = set_prop ''IntegrationMethod'' (Str http_method) api_integration;
          api_integration = set_prop ''IntegrationUri'' (Str target) api_integration;
          api_integration =
            (if take 5 (str_lower target) = ''http:'' \<or> take 6 (str_lower target) = ''https:''
             then set_prop ''PayloadFormatVersion'' (Str ''1.0'')
                    (set_prop ''IntegrationType'' (Str ''HTTP_PROXY'') api_integration)
             else set_prop ''PayloadFormatVersion'' (Str ''2.0'')
                    (set_prop ''IntegrationType'' (Str ''AWS_PROXY'') api_integration))
      in set_prop ''TimeoutInMillis'' (Num timeout) api_integration)"

definition route_object ::
  "'e pawslib \<Rightarrow> string \<Rightarrow> string \<Rightarrow> string option \<Rightarrow> resource \<Rightarrow> HttpApi \<Rightarrow> resource" where
  "route_object lib path http_method description api_integration self =
     (let api_route = new_resource ''AWS::ApiGatewayV2::Route'' (alphanum lib path @ ''Route'')
                        [(''ApiId'', Ref (h_t_api self))];
          api_route = (case description of None \<Rightarrow> api_route
                       | Some d \<Rightarrow> set_prop ''OperationName'' (Str d) api_route);
          api_route = set_prop ''RouteKey'' (Str (http_method @ '' /'' @ path)) api_route
      in set_prop ''Target'' (Join ''/'' [Str ''integrations'', Ref api_integration]) api_route)"

text \<open>
  \<^verbatim>\<open>add_route\<close>.  The assignment \<^verbatim>\<open>api_integration.TimeoutInMillis = timeout\<close> runs the
  library's check of the value; when that raises, the Integration is a local object and
  nothing was stored yet.
\<close>

definition add_route ::
  "runtime \<Rightarrow> 'e pawslib \<Rightarrow> string \<Rightarrow> string \<Rightarrow> string \<Rightarrow> int \<Rightarrow> string option \<Rightarrow> HttpApi
     \<Rightarrow> 'e error option \<times> HttpApi" where
  "add_route rt lib path target http_method timeout description self =
     (if py_upper (unicode_upper rt) http_method \<notin> set http_methods
      then (Some (ValueError (http_method @ '' is not a valid HTTP METHOD'')), self)
      else
        (case timeout_in_millis rt timeout of
           Some message \<Rightarrow> (Some (ValueError message), self)
         | None \<Rightarrow>
            (let api_integration =
                   route_integration lib path target http_method timeout description self;
                 api_route = route_object lib path http_method description api_integration self;
                 resources = (h_resources self)(KStr (title api_integration) \<mapsto> api_integration);
                 resources = resources(KObj api_route \<mapsto> api_route)
             in (None, self\<lparr>h_resources := resources\<rparr>))))"

section \<open>Subnets over availability zones (ec2.py and the package's __init__.py)\<close>

text \<open>\<^verbatim>\<open>Tags=[{"Key": "Name", "Value": v}]\<close>.\<close>

definition name_tag :: "string \<Rightarrow> val" where
  "name_tag v = ListV [Dict [(''Key'', Str ''Name''), (''Value'', Str v)]]"

text \<open>\<^verbatim>\<open>s[-1:]\<close>: the last character of \<open>s\<close> as a string, empty when \<open>s\<close> is empty.\<close>

definition last_char :: "string \<Rightarrow> string" where
  "last_char s = drop (length s - 1) s"

text \<open>
  The two associations that the loop body appends after a subnet once an id is known.
\<close>

definition nacl_association :: "resource \<Rightarrow> val \<Rightarrow> resource" where
  "nacl_association subnet network_acl_id =
     new_resource ''AWS::EC2::SubnetNetworkAclAssociation'' (title subnet @ ''NaclAssociation'')
       [(''SubnetId'', Ref subnet), (''NetworkAclId'', network_acl_id)]"

definition route_association :: "resource \<Rightarrow> val \<Rightarrow> resource" where
  "route_association subnet route_table_id =
     new_resource ''AWS::EC2::SubnetRouteTableAssociation'' (title subnet @ ''RouteAssociation'')
       [(''SubnetId'', Ref subnet), (''RouteTableId'', route_table_id)]"

text \<open>The subnet built by \<^verbatim>\<open>ec2.py\<close>: the name tag ends in the zone letter, and the
  metadata is set.\<close>

definition ec2_subnet :: "string \<Rightarrow> string \<Rightarrow> val \<Rightarrow> nat \<Rightarrow> net_segment \<Rightarrow> resource" where
  "ec2_subnet name_prefix prefix vpc_id index net_segment =
     (let az_index = str_upper (last_char (az net_segment));
          subnet = new_resource ''AWS::EC2::Subnet'' (prefix @ str_nat (index + 1))
                     [(''AvailabilityZone'', Str (az net_segment)),
                      (''CidrBlock'', Str (cidr net_segment)),
                      (''VpcId'', vpc_id),
                      (''Tags'', name_tag (name_prefix @ '' '' @ az_index))]
      in subnet\<lparr>Metadata :=
           Some \<lparr>m_az = str_lower (az net_segment), m_az_index = az_index,
                 m_suffix = index + 1\<rparr>\<rparr>)"

text \<open>The subnet built by the package's \<^verbatim>\<open>__init__.py\<close>: the name tag carries the
  number and the zone letter, and no metadata is set.\<close>

definition init_subnet :: "string \<Rightarrow> string \<Rightarrow> val \<Rightarrow> nat \<Rightarrow> net_segment \<Rightarrow> resource" where
  "init_subnet name_prefix prefix vpc_id index net_segment =
     (let az_index = str_upper (last_char (az net_segment))
      in new_resource ''AWS::EC2::Subnet'' (prefix @ str_nat (index + 1))
           [(''AvailabilityZone'', Str (az net_segment)),
            (''CidrBlock'', Str (cidr net_segment)),
            (''VpcId'', vpc_id),
            (''Tags'', name_tag (name_prefix @ '' '' @ str_nat (index + 1)
                                   @ ''('' @ az_index @ '')''))])"

text \<open>
  One iteration of the loop over \<^verbatim>\<open>enumerate(net_split)\<close>.  The loop state is the list
  \<^verbatim>\<open>resources\<close> and the variables \<^verbatim>\<open>network_acl_id\<close> and \<^verbatim>\<open>route_table_id\<close>, which
  the body reassigns.  The subnet constructor is the only difference between the two
  files.
\<close>

definition subnets_step ::
  "(nat \<Rightarrow> net_segment \<Rightarrow> resource) \<Rightarrow> resource option \<Rightarrow> resource option
     \<Rightarrow> resource list \<times> val option \<times> val option \<Rightarrow> nat \<times> net_segment
     \<Rightarrow> resource list \<times> val option \<times> val option" where
  "subnets_step mk_subnet network_acl route_table st item =
     (case st of (resources, network_acl_id, route_table_id) \<Rightarrow>
      case item of (index, net_segment) \<Rightarrow>
       (let subnet = mk_subnet index net_segment;
            resources = resources @ [subnet];
            network_acl_id =
              (if network_acl_id = None \<and> network_acl \<noteq> None
               then map_option Ref network_acl else network_acl_id);
            resources =
              (case network_acl_id of None \<Rightarrow> resources
               | Some i \<Rightarrow> resources @ [nacl_association subnet i]);
            route_table_id =
              (if route_table_id = None \<and> route_table \<noteq> None
               then map_option Ref route_table else route_table_id);
            resources =
              (case route_table_id of None \<Rightarrow> resources
               | Some i \<Rightarrow> resources @ [route_association subnet i])
        in (resources, network_acl_id, route_table_id)))"

text \<open>
  The body shared by both definitions of \<^verbatim>\<open>multiaz_subnets\<close>: the check of \<^verbatim>\<open>vpc\<close>
  and \<^verbatim>\<open>vpc_id\<close>, the prefix, the call of the splitting helper (whose exception, if any,
  propagates) and the loop.
\<close>

definition multiaz_subnets_with ::
  "(string \<Rightarrow> string \<Rightarrow> val \<Rightarrow> nat \<Rightarrow> net_segment \<Rightarrow> resource) \<Rightarrow> 'e pawslib
     \<Rightarrow> string \<Rightarrow> string \<Rightarrow> string \<Rightarrow> resource option \<Rightarrow> string option \<Rightarrow> int
     \<Rightarrow> resource option \<Rightarrow> string option \<Rightarrow> resource option \<Rightarrow> string option
     \<Rightarrow> 'e error + resource list" where
  "multiaz_subnets_with mk lib name_prefix cidr_block region vpc vpc_id no_of_subnets
       network_acl network_acl_id route_table route_table_id =
     (if vpc = None \<and> vpc_id = None
      then Inl (ValueError ''One of vpc or vpc_id must be specified'')
      else
        (let vpc_id = (case vpc_id of None \<Rightarrow> map_option Ref vpc | Some i \<Rightarrow> Some (Str i))
         in case vpc_id of
              None \<Rightarrow> Inl (ValueError ''One of vpc or vpc_id must be specified'')
            | Some vpc_id \<Rightarrow>
               (let prefix = capitalize (str_lower (alphanum lib name_prefix))
                in case split_net_across_zones lib cidr_block region no_of_subnets of
                     Inl e \<Rightarrow> Inl (Propagated e)
                   | Inr net_split \<Rightarrow>
                       Inr (fst (foldl
                         (subnets_step (mk name_prefix prefix vpc_id) network_acl route_table)
                         ([], map_option Str network_acl_id, map_option Str route_table_id)
                         (enumerate 0 net_split))))))"

definition multiaz_subnets ::
  "'e pawslib \<Rightarrow> string \<Rightarrow> string \<Rightarrow> string \<Rightarrow> resource option \<Rightarrow> string option \<Rightarrow> int
     \<Rightarrow> resource option \<Rightarrow> string option \<Rightarrow> resource option \<Rightarrow> string option
     \<Rightarrow> 'e error + resource list" where
  "multiaz_subnets = multiaz_subnets_with ec2_subnet"

definition init_multiaz_subnets ::
  "'e pawslib \<Rightarrow> string \<Rightarrow> string \<Rightarrow> string \<Rightarrow> resource option \<Rightarrow> string option \<Rightarrow> int
     \<Rightarrow> resource option \<Rightarrow> string option \<Rightarrow> resource option \<Rightarrow> string option
     \<Rightarrow> 'e error + resource list" where
  "init_multiaz_subnets = multiaz_subnets_with init_subnet"

section \<open>The VPC template (ec2.py)\<close>

text \<open>
  The attributes of a \<^verbatim>\<open>VpcTemplate\<close> object; \<open>v_r\<close> is the dictionary \<^verbatim>\<open>_r\<close> of
  resources and \<open>v_o\<close> the dictionary \<^verbatim>\<open>_o\<close> of outputs.  The template \<^verbatim>\<open>_t\<close> stays
  empty until \<^verbatim>\<open>generate\<close> is called and is left out.
\<close>

record VpcTemplate =
  v_name :: string
  v_region :: string
  v_cidr_block :: string
  v_internal_networks :: "string list"
  v_internet_access_enabled :: bool
  v_nat_gateways :: "resource list"
  v_natted_route_tables :: "resource list"
  v_r :: "string \<rightharpoonup> resource"
  v_o :: "string \<rightharpoonup> resource"
  v_vpc :: resource
  v_public_route_table :: resource
  v_public_nacl :: resource
  v_internal_nacl :: resource

definition port_range :: "int \<Rightarrow> int \<Rightarrow> string \<times> val" where
  "port_range from to = (''PortRange'', Dict [(''From'', Num from), (''To'', Num to)])"

definition nacl_entry ::
  "string \<Rightarrow> resource \<Rightarrow> bool \<Rightarrow> int \<Rightarrow> val \<Rightarrow> int \<Rightarrow> (string \<times> val) list \<Rightarrow> resource" where
  "nacl_entry t nacl egress rule_number cidr_block protocol extra =
     new_resource ''AWS::EC2::NetworkAclEntry'' t
       ([(''NetworkAclId'', Ref nacl), (''Egress'', Bool egress),
         (''RuleNumber'', Num rule_number), (''CidrBlock'', cidr_block),
         (''Protocol'', Num protocol)] @ extra @ [(''RuleAction'', Str ''allow'')])"

text \<open>
  The constructor.  The first object it builds is the VPC, whose title is made of the
  \<^verbatim>\<open>name\<close> argument as it is; when that title is rejected the constructor raises and no
  object comes into being.  The property values it passes are literals, strings and the
  rule numbers \<^verbatim>\<open>101 + index\<close>; the checks that the library runs on property values are
  left out, they could only reject the rule number of a list of tens of thousands of
  internal networks.
\<close>

definition VpcTemplate_init ::
  "string \<Rightarrow> string \<Rightarrow> string \<Rightarrow> bool \<Rightarrow> string list \<Rightarrow> 'e error + VpcTemplate" where
  "VpcTemplate_init region cidr_block name internet_access_enabled internal_networks =
    (case validate_title (name @ ''Vpc'') of
       Some e \<Rightarrow> Inl e
     | None \<Rightarrow> Inr
     (let vpc = new_resource ''AWS::EC2::VPC'' (name @ ''Vpc'')
                  [(''CidrBlock'', Str cidr_block), (''EnableDnsHostnames'', Bool True),
                   (''EnableDnsSupport'', Bool True), (''Tags'', name_tag name)];
          r = [''Vpc'' \<mapsto> vpc];
          out = [''VpcId'' \<mapsto> new_resource ''Output'' ''VpcId''
                  [(''Value'', Ref vpc),
                   (''Export'', Dict [(''Name'', Sub ''${AWS::StackName}-vpc-id'')])]];
          igw = new_resource ''AWS::EC2::InternetGateway'' ''Igw''
                  [(''Tags'', name_tag (name @ ''-igw''))];
          r = (if internet_access_enabled
               then r(''Igw'' \<mapsto> igw,
                      ''igw_attachment'' \<mapsto>
                        new_resource ''AWS::EC2::VPCGatewayAttachment'' ''IgwAttachment''
                          [(''VpcId'', Ref vpc), (''InternetGatewayId'', Ref igw)])
               else r);
          public_route_table = new_resource ''AWS::EC2::RouteTable'' ''PubRouteTable''
                  [(''VpcId'', Ref vpc), (''Tags'', name_tag ''Public'')];
          r = r(''PubRouteTable'' \<mapsto> public_route_table);
          r = (if internet_access_enabled
               then r(''pub_rtt_rt_pub'' \<mapsto>
                        new_resource ''AWS::EC2::Route'' ''PubRoute''
                          [(''RouteTableId'', Ref public_route_table),
                           (''DestinationCidrBlock'', Str ''0.0.0.0/0''),
                           (''GatewayId'', Ref igw)])
               else r);
          public_nacl = new_resource ''AWS::EC2::NetworkAcl'' ''PubNacl''
                  [(''VpcId'', Ref vpc), (''Tags'', name_tag ''Public'')];
          r = r(''PubNacl'' \<mapsto> public_nacl,
                ''pub_nacl_out_all'' \<mapsto>
                  nacl_entry ''PubNaclOutAll'' public_nacl True 500 (Str ''0.0.0.0/0'') (- 1) [],
                ''pub_nacl_in_icmp'' \<mapsto>
                  nacl_entry ''PubNaclInIcmp'' public_nacl False 99 (Str ''0.0.0.0/0'') 1
                    [(''Icmp'', Dict [(''Code'', Num (- 1)), (''Type'', Num (- 1))])],
                ''pub_nacl_in_vpc'' \<mapsto>
                  nacl_entry ''PubNaclInVpc'' public_nacl False 100 (GetAtt vpc ''CidrBlock'')
                    (- 1) []);
          r = foldl (\<lambda>r (index, cidr_block).
                  r(''pub_nacl_in_internal_'' @ str_nat index \<mapsto>
                      nacl_entry (''PubNaclInInternal'' @ str_nat index) public_nacl False
                        (101 + int index) (Str cidr_block) (- 1) []))
                r (enumerate 0 internal_networks);
          r = r(''pub_nacl_in_ssh'' \<mapsto>
                  nacl_entry ''PubNaclInSsh'' public_nacl False 210 (Str ''0.0.0.0/0'') 6
                    [port_range 22 22],
                ''pub_nacl_in_http'' \<mapsto>
                  nacl_entry ''PubNaclInHttp'' public_nacl False 220 (Str ''0.0.0.0/0'') 6
                    [port_range 80 80],
                ''pub_nacl_in_https'' \<mapsto>
                  nacl_entry ''PubNaclInHttps'' public_nacl False 221 (Str ''0.0.0.0/0'') 6
                    [port_range 443 443],
                ''pub_nacl_in_nat_tcp'' \<mapsto>
                  nacl_entry ''PubNaclInNatTcp'' public_nacl False 500 (Str ''0.0.0.0/0'') 6
                    [port_range 1024 65535],
                ''pub_nacl_in_nat_udp'' \<mapsto>
                  nacl_entry ''PubNaclInNatUdp'' public_nacl False 501 (Str ''0.0.0.0/0'') 17
                    [port_range 1024 65535]);
          internal_nacl = new_resource ''AWS::EC2::NetworkAcl'' ''InternalNacl''
                  [(''VpcId'', Ref vpc), (''Tags'', name_tag ''Private'')];
          r = r(''InternalNacl'' \<mapsto> internal_nacl,
                ''internal_nacl_out_all'' \<mapsto>
                  nacl_entry ''InternalNaclOutAll'' internal_nacl True 500 (Str ''0.0.0.0/0'')
                    (- 1) [],
                ''internal_nacl_in_icmp'' \<mapsto>
                  nacl_entry ''InternalNaclInIcmp'' internal_nacl False 99 (Str ''0.0.0.0/0'') 1
                    [(''Icmp'', Dict [(''Code'', Num (- 1)), (''Type'', Num (- 1))])],
                ''internal_nacl_in_vpc'' \<mapsto>
                  nacl_entry ''InternalNaclInVpc'' internal_nacl False 100
                    (GetAtt vpc ''CidrBlock'') (- 1) []);
          r = foldl (\<lambda>r (index, cidr_block).
                  r(''internal_nacl_in_internal_'' @ str_nat index \<mapsto>
                      nacl_entry (''InternalNaclInInternal'' @ str_nat index) internal_nacl False
                        (101 + int index) (Str cidr_block) (- 1) []))
                r (enumerate 0 internal_networks);
          r = r(''internal_nacl_in_nat_tcp'' \<mapsto>
                  nacl_entry ''InternalNaclInNatTcp'' internal_nacl False 500 (Str ''0.0.0.0/0'')
                    6 [port_range 1024 65535],
                ''internal_nacl_in_nat_udp'' \<mapsto>
                  nacl_entry ''InternalNaclInNatUdp'' internal_nacl False 501 (Str ''0.0.0.0/0'')
                    17 [port_range 1024 65535])
      in \<lparr>v_name = name, v_region = region, v_cidr_block = cidr_block,
          v_internal_networks = internal_networks,
          v_internet_access_enabled = internet_access_enabled,
          v_nat_gateways = [], v_natted_route_tables = [],
          v_r = r, v_o = out, v_vpc = vpc, v_public_route_table = public_route_table,
          v_public_nacl = public_nacl, v_internal_nacl = internal_nacl\<rparr>))"

text \<open>
  The objects that \<^verbatim>\<open>add_public_subnet_group\<close> creates for one subnet when NAT gateways
  are requested: the elastic IP, the NAT gateway, the private route table and the NAT
  route.  Reading \<^verbatim>\<open>subnet.Metadata\<close> fails when the attribute was never set.  The title
  of the route ends in the zone letter; when it is rejected, the constructor of the route
  raises after the other three objects were stored.
\<close>

definition nat_eip :: "metadata \<Rightarrow> resource" where
  "nat_eip md = new_resource ''AWS::EC2::EIP'' (''EipNatGw'' @ str_nat (m_suffix md))
                  [(''Domain'', Str ''vpc'')]"

definition nat_gateway :: "resource \<Rightarrow> metadata \<Rightarrow> resource" where
  "nat_gateway subnet md =
     (new_resource ''AWS::EC2::NatGateway'' (''NatGw'' @ str_nat (m_suffix md))
        [(''AllocationId'', GetAtt (nat_eip md) ''AllocationId''),
         (''SubnetId'', Ref subnet),
         (''Tags'', name_tag (''Nat Gw '' @ m_az_index md))])
     \<lparr>Metadata := Some \<lparr>m_az = m_az md, m_az_index = m_az_index md, m_suffix = m_suffix md\<rparr>\<rparr>"

definition nat_route_table :: "resource \<Rightarrow> metadata \<Rightarrow> resource" where
  "nat_route_table vpc md =
     (new_resource ''AWS::EC2::RouteTable'' (''PrivRouteTable'' @ str_nat (m_suffix md))
        [(''VpcId'', Ref vpc),
         (''Tags'', name_tag (''Private '' @ m_az_index md))])
     \<lparr>Metadata := Some \<lparr>m_az = m_az md, m_az_index = m_az_index md, m_suffix = m_suffix md\<rparr>\<rparr>"

definition nat_route :: "resource \<Rightarrow> resource \<Rightarrow> metadata \<Rightarrow> resource" where
  "nat_route route_table nat_gw md =
     new_resource ''AWS::EC2::Route'' (''NatRoute'' @ str_upper (m_az_index md))
       [(''RouteTableId'', Ref route_table),
        (''DestinationCidrBlock'', Str ''0.0.0.0/0''),
        (''NatGatewayId'', Ref nat_gw)]"

definition add_nat_gateway ::
  "resource \<Rightarrow> VpcTemplate \<Rightarrow> 'e error option \<times> VpcTemplate" where
  "add_nat_gateway subnet self =
     (case Metadata subnet of
        None \<Rightarrow> (Some (AttributeError ''Metadata''), self)
      | Some md \<Rightarrow>
         (let eip = nat_eip md;
              self = self\<lparr>v_r := (v_r self)(title eip \<mapsto> eip)\<rparr>;
              nat_gw = nat_gateway subnet md;
              self = self\<lparr>v_r := (v_r self)(title nat_gw \<mapsto> nat_gw)\<rparr>;
              self = self\<lparr>v_nat_gateways := v_nat_gateways self @ [nat_gw]\<rparr>;
              route_table = nat_route_table (v_vpc self) md;
              self = self\<lparr>v_natted_route_tables := v_natted_route_tables self @ [route_table]\<rparr>;
              self = self\<lparr>v_r := (v_r self)(title route_table \<mapsto> route_table)\<rparr>
          in case validate_title (''NatRoute'' @ str_upper (m_az_index md)) of
               Some e \<Rightarrow> (Some e, self)
             | None \<Rightarrow>
                (let route = nat_route route_table nat_gw md
                 in (None, self\<lparr>v_r := (v_r self)(title route \<mapsto> route)\<rparr>))))"

text \<open>
  The loop of \<^verbatim>\<open>add_public_subnet_group\<close> over the resources that \<^verbatim>\<open>multiaz_subnets\<close>
  returned.  A method returns the exception it raised, if any, and the object as the call
  leaves it.
\<close>

fun public_subnets_loop ::
  "bool \<Rightarrow> resource list \<Rightarrow> VpcTemplate \<Rightarrow> 'e error option \<times> VpcTemplate" where
  "public_subnets_loop create_nat_gateways [] self = (None, self)"
| "public_subnets_loop create_nat_gateways (res # rest) self =
     (let self = self\<lparr>v_r := (v_r self)(title res \<mapsto> res)\<rparr>
      in if create_nat_gateways \<and> rtype res = ''AWS::EC2::Subnet''
         then (case add_nat_gateway res self of
                 (Some e, self) \<Rightarrow> (Some e, self)
               | (None, self) \<Rightarrow> public_subnets_loop create_nat_gateways rest self)
         else public_subnets_loop create_nat_gateways rest self)"

definition add_public_subnet_group ::
  "'e pawslib \<Rightarrow> string \<Rightarrow> string \<Rightarrow> int \<Rightarrow> bool \<Rightarrow> VpcTemplate
     \<Rightarrow> 'e error option \<times> VpcTemplate" where
  "add_public_subnet_group lib name_prefix cidr_block no_of_subnets create_nat_gateways self =
     (case multiaz_subnets lib name_prefix cidr_block (v_region self) (Some (v_vpc self)) None
             no_of_subnets (Some (v_public_nacl self)) None
             (Some (v_public_route_table self)) None of
        Inl e \<Rightarrow> (Some e, self)
      | Inr resources \<Rightarrow> public_subnets_loop create_nat_gateways resources self)"

text \<open>
  The inner loop of \<^verbatim>\<open>add_natted_subnet_group\<close>: the first natted route table whose
  \<^verbatim>\<open>Metadata["az"]\<close> equals the subnet's, if there is one.
\<close>

fun find_route_table :: "resource list \<Rightarrow> resource \<Rightarrow> 'e error + resource option" where
  "find_route_table [] subnet = Inr None"
| "find_route_table (route_table # rest) subnet =
     (case Metadata route_table of
        None \<Rightarrow> Inl (AttributeError ''Metadata'')
      | Some rmd \<Rightarrow>
         (case Metadata subnet of
            None \<Rightarrow> Inl (AttributeError ''Metadata'')
          | Some smd \<Rightarrow>
             if m_az rmd = m_az smd then Inr (Some route_table)
             else find_route_table rest subnet))"

fun natted_subnets_loop :: "resource list \<Rightarrow> VpcTemplate \<Rightarrow> 'e error option \<times> VpcTemplate" where
  "natted_subnets_loop [] self = (None, self)"
| "natted_subnets_loop (res # rest) self =
     (let self = self\<lparr>v_r := (v_r self)(title res \<mapsto> res)\<rparr>
      in if rtype res = ''AWS::EC2::Subnet''
         then (case find_route_table (v_natted_route_tables self) res of
                 Inl e \<Rightarrow> (Some e, self)
               | Inr (Some route_table) \<Rightarrow>
                   natted_subnets_loop rest
                     (self\<lparr>v_r := (v_r self)(title res @ ''RouteAssociation'' \<mapsto>
                              route_association res (Ref route_table))\<rparr>)
               | Inr None \<Rightarrow>
                   (case Metadata res of
                      None \<Rightarrow> (Some (AttributeError ''Metadata''), self)
                    | Some smd \<Rightarrow>
                       (Some (NotImplementedError (''Can't find NAT gateway in '' @ m_az smd)),
                        self)))
         else natted_subnets_loop rest self)"

text \<open>
  \<^verbatim>\<open>add_natted_subnet_group\<close> does not pass its \<^verbatim>\<open>no_of_subnets\<close> on, so
  \<^verbatim>\<open>multiaz_subnets\<close> runs with its default of 4.
\<close>

definition add_natted_subnet_group ::
  "'e pawslib \<Rightarrow> string \<Rightarrow> string \<Rightarrow> int \<Rightarrow> VpcTemplate \<Rightarrow> 'e error option \<times> VpcTemplate" where
  "add_natted_subnet_group lib cidr_block name_prefix no_of_subnets self =
     (case multiaz_subnets lib name_prefix cidr_block (v_region self) (Some (v_vpc self)) None
             4 (Some (v_internal_nacl self)) None None None of
        Inl e \<Rightarrow> (Some e, self)
      | Inr resources \<Rightarrow> natted_subnets_loop resources self)"

section \<open>States of an HTTP API object that its methods can produce\<close>

inductive reachable :: "runtime \<Rightarrow> 'e pawslib \<Rightarrow> HttpApi \<Rightarrow> bool"
  for rt :: runtime and lib :: "'e pawslib" where
  reachable_init: "reachable rt lib (HttpApi_init lib name description)"
| reachable_stage: "reachable rt lib self \<Longrightarrow>
     reachable rt lib (snd (add_stage lib name auto_deploy log_format self))"
| reachable_route: "reachable rt lib self \<Longrightarrow>
     reachable rt lib (snd (add_route rt lib path target http_method timeout description self))"

section \<open>An example environment\<close>

text \<open>
  A sample instance of the external helpers, for concrete runs: \<^verbatim>\<open>alphanum\<close> keeps the
  ASCII letters and digits, and the splitting helper answers with three segments in the
  zones a, b and c of one region.
\<close>

definition example_alphanum :: "string \<Rightarrow> string" where
  "example_alphanum s =
     filter (\<lambda>c. c \<in> set (ascii_lowercase @ ascii_uppercase @ ''0123456789'')) s"

definition example_lib :: "unit pawslib" where
  "example_lib =
     \<lparr>alphanum = example_alphanum,
      split_net_across_zones = (\<lambda>net region subnets.
        Inr [\<lparr>az = ''eu-west-1a'', cidr = ''10.0.0.0/26''\<rparr>,
             \<lparr>az = ''eu-west-1b'', cidr = ''10.0.0.64/26''\<rparr>,
             \<lparr>az = ''eu-west-1c'', cidr = ''10.0.0.128/26''\<rparr>])\<rparr>"

text \<open>
  A sample instance of the other two parameters: an upper-casing that knows the long s
  (U+017F, in UTF-8 the bytes C5 BF), whose upper-case form is \<^verbatim>\<open>S\<close>, and a check of
  \<^verbatim>\<open>TimeoutInMillis\<close> that accepts the values from 50 to 29000.
\<close>

fun long_s_upper :: "string \<Rightarrow> string" where
  "long_s_upper [] = []"
| "long_s_upper [c] = [upper_char c]"
| "long_s_upper (c # d # cs) =
     (if c = CHR 0xC5 \<and> d = CHR 0xBF then CHR ''S'' # long_s_upper cs
      else upper_char c # long_s_upper (d # cs))"

definition example_runtime :: runtime where
  "example_runtime =
     \<lparr>unicode_upper = long_s_upper,
      timeout_in_millis = (\<lambda>i. if i < 50 \<or> 29000 < i
                                then Some ''Integer must be between 50 and 29000'' else None)\<rparr>"

definition example_api :: HttpApi where
  "example_api = HttpApi_init example_lib ''demo'' None"

text \<open>Character classes used to tell resource titles apart.\<close>

definition is_digit :: "char \<Rightarrow> bool" where
  "is_digit c = (c \<in> set ''0123456789'')"

definition is_upper :: "char \<Rightarrow> bool" where
  "is_upper c = (c \<in> set ascii_uppercase)"

text \<open>A string that is empty or starts with a character other than a digit.\<close>

definition no_leading_digit :: "string \<Rightarrow> bool" where
  "no_leading_digit s = (case s of [] \<Rightarrow> True | c # _ \<Rightarrow> \<not> is_digit c)"

text \<open>
  The id an association is built with: the id given as a string if there is one,
  otherwise a reference to the resource object if there is one.
\<close>

definition effective_id :: "string option \<Rightarrow> resource option \<Rightarrow> val option" where
  "effective_id rid obj = (case rid of None \<Rightarrow> map_option Ref obj | Some i \<Rightarrow> Some (Str i))"

text \<open>
  The resources one loop iteration appends: the subnet, then its network ACL association
  and its route table association when the respective id is known.
\<close>

definition subnet_block ::
  "(nat \<Rightarrow> net_segment \<Rightarrow> resource) \<Rightarrow> val option \<Rightarrow> val option \<Rightarrow> nat \<times> net_segment \<Rightarrow> resource list" where
  "subnet_block mk_subnet acl_id rt_id item =
     (case item of (index, net_segment) \<Rightarrow>
        mk_subnet index net_segment
        # (case acl_id of None \<Rightarrow> [] | Some i \<Rightarrow> [nacl_association (mk_subnet index net_segment) i])
        @ (case rt_id of None \<Rightarrow> [] | Some i \<Rightarrow> [route_association (mk_subnet index net_segment) i]))"

text \<open>The reassignment of \<^verbatim>\<open>network_acl_id\<close> and \<^verbatim>\<open>route_table_id\<close> in the loop body.\<close>

definition reassign :: "val option \<Rightarrow> resource option \<Rightarrow> val option" where
  "reassign vid obj = (if vid = None \<and> obj \<noteq> None then map_option Ref obj else vid)"

text \<open>The blocks of \<open>n\<close> iterations, with the subnet of iteration \<open>i\<close> given by \<open>sub i\<close>.\<close>

definition blocks :: "(nat \<Rightarrow> resource) \<Rightarrow> val option \<Rightarrow> val option \<Rightarrow> nat \<Rightarrow> resource list" where
  "blocks sub acl rt n =
     concat (map (\<lambda>i. sub i
        # (case acl of None \<Rightarrow> [] | Some a \<Rightarrow> [nacl_association (sub i) a])
        @ (case rt of None \<Rightarrow> [] | Some a \<Rightarrow> [route_association (sub i) a])) [0..<n])"

text \<open>
  What corresponding elements of the lists of the two definitions of \<^verbatim>\<open>multiaz_subnets\<close>
  have in common, and where they differ.
\<close>

definition same_shape :: "resource \<Rightarrow> resource \<Rightarrow> bool" where
  "same_shape r1 r2 \<longleftrightarrow>
     title r1 = title r2 \<and> rtype r1 = rtype r2
     \<and> (if rtype r1 = ''AWS::EC2::Subnet''
         then Properties r1 ''AvailabilityZone'' = Properties r2 ''AvailabilityZone''
              \<and> Properties r1 ''CidrBlock'' = Properties r2 ''CidrBlock''
              \<and> Properties r1 ''VpcId'' = Properties r2 ''VpcId''
              \<and> Properties r1 ''Tags'' \<noteq> Properties r2 ''Tags''
              \<and> Metadata r1 = None \<and> Metadata r2 \<noteq> None
         else r1 = r2)"

text \<open>
  The assignments \<^verbatim>\<open>d[k] = v\<close> of a list of key-value pairs, carried out from left to
  right on a dictionary.
\<close>

definition apply_writes :: "('k \<rightharpoonup> 'v) \<Rightarrow> ('k \<times> 'v) list \<Rightarrow> ('k \<rightharpoonup> 'v)" where
  "apply_writes m ws = foldl (\<lambda>m kv. m(fst kv \<mapsto> snd kv)) m ws"

text \<open>The zone recorded in a resource's metadata, and the first route table of a zone.\<close>

definition metadata_az :: "resource \<Rightarrow> string option" where
  "metadata_az res = map_option m_az (Metadata res)"

definition first_table :: "resource list \<Rightarrow> string option \<Rightarrow> resource option" where
  "first_table tables zone = find (\<lambda>route_table. metadata_az route_table = zone) tables"

text \<open>
  The assignments to \<^verbatim>\<open>_r\<close> that one iteration of the loop of
  \<^verbatim>\<open>add_natted_subnet_group\<close> makes when it finds a route table.
\<close>

definition natted_writes :: "resource list \<Rightarrow> resource \<Rightarrow> (string \<times> resource) list" where
  "natted_writes tables res =
     (title res, res)
     # (if rtype res = ''AWS::EC2::Subnet''
        then (case first_table tables (metadata_az res) of
                None \<Rightarrow> []
              | Some route_table \<Rightarrow>
                  [(title res @ ''RouteAssociation'', route_association res (Ref route_table))])
        else [])"

text \<open>A string with an upper-case letter after its first character.\<close>

definition inner_upper :: "string \<Rightarrow> bool" where
  "inner_upper s = (\<exists>c \<in> set (tl s). is_upper c)"

text \<open>
  The assignments to \<^verbatim>\<open>_r\<close> that one iteration of the loop of
  \<^verbatim>\<open>add_public_subnet_group\<close> makes when NAT gateways are requested, and the objects it
  appends to \<^verbatim>\<open>nat_gateways\<close> and to \<^verbatim>\<open>natted_route_tables\<close>.
\<close>

definition public_writes :: "resource \<Rightarrow> resource \<Rightarrow> (string \<times> resource) list" where
  "public_writes vpc res =
     (title res, res)
     # (if rtype res = ''AWS::EC2::Subnet''
        then (case Metadata res of
                None \<Rightarrow> []
              | Some md \<Rightarrow>
                  [(title (nat_eip md), nat_eip md),
                   (title (nat_gateway res md), nat_gateway res md),
                   (title (nat_route_table vpc md), nat_route_table vpc md),
                   (title (nat_route (nat_route_table vpc md) (nat_gateway res md) md),
                    nat_route (nat_route_table vpc md) (nat_gateway res md) md)])
        else [])"

definition public_gateways :: "resource \<Rightarrow> resource list" where
  "public_gateways res =
     (if rtype res = ''AWS::EC2::Subnet''
      then (case Metadata res of None \<Rightarrow> [] | Some md \<Rightarrow> [nat_gateway res md])
      else [])"

definition public_tables :: "resource \<Rightarrow> resource \<Rightarrow> resource list" where
  "public_tables vpc res =
     (if rtype res = ''AWS::EC2::Subnet''
      then (case Metadata res of None \<Rightarrow> [] | Some md \<Rightarrow> [nat_route_table vpc md])
      else [])"

text \<open>
  A sample VPC template, as the constructor builds it, and the same template after a group
  of public subnets with NAT gateways was added.
\<close>

definition example_vpc :: VpcTemplate where
  "example_vpc =
     projr (VpcTemplate_init ''eu-west-1'' ''10.0.0.0/16'' ''VPC'' True []
              :: unit error + VpcTemplate)"

definition example_vpc_nat :: VpcTemplate where
  "example_vpc_nat =
     snd (add_public_subnet_group example_lib ''public'' ''10.0.0.0/24'' 4 True example_vpc
            :: unit error option \<times> VpcTemplate)"

text \<open>A splitting helper that names a zone that ends in a hyphen.\<close>

definition hyphen_lib :: "unit pawslib" where
  "hyphen_lib =
     \<lparr>alphanum = example_alphanum,
      split_net_across_zones = (\<lambda>net region subnets.
        Inr [\<lparr>az = ''eu-west-1-'', cidr = ''10.0.0.0/26''\<rparr>])\<rparr>"

section \<open>Properties of the string functions\<close>

lemmas str_defs = str_upper_def str_lower_def upper_char_def lower_char_def
  ascii_lowercase_def ascii_uppercase_def

lemma str_contains_iff: "str_contains sub s \<longleftrightarrow> (\<exists>ps ss. s = ps @ sub @ ss)"
proof (induction s)
  case Nil
  then show ?case by auto
next
  case (Cons c cs)
  show ?case
  proof
    assume "str_contains sub (c # cs)"
    then consider "take (length sub) (c # cs) = sub" | "str_contains sub cs" by auto
    then show "\<exists>ps ss. c # cs = ps @ sub @ ss"
    proof cases
      case 1
      then have "c # cs = [] @ sub @ drop (length sub) (c # cs)"
        by (metis append_Nil append_take_drop_id)
      then show ?thesis by blast
    next
      case 2
      then obtain ps ss where "cs = ps @ sub @ ss" using Cons.IH by blast
      then have "c # cs = (c # ps) @ sub @ ss" by simp
      then show ?thesis by blast
    qed
  next
    assume "\<exists>ps ss. c # cs = ps @ sub @ ss"
    then obtain ps ss where eq: "c # cs = ps @ sub @ ss" by blast
    show "str_contains sub (c # cs)"
    proof (cases ps)
      case Nil
      then have "take (length sub) (c # cs) = sub" using eq by simp
      then show ?thesis by simp
    next
      case (Cons p ps')
      then have "cs = ps' @ sub @ ss" using eq by simp
      then show ?thesis using Cons.IH by auto
    qed
  qed
qed

lemma ex_alnum_items: "alphanum example_lib ''items'' = ''items''"
  by (simp add: example_lib_def example_alphanum_def str_defs)

lemma ex_alnum_demo: "alphanum example_lib ''demo'' = ''demo''"
  by (simp add: example_lib_def example_alphanum_def str_defs)

section \<open>Properties of the HTTP API\<close>

lemma title_route_integration [simp]:
  "title (route_integration lib path target http_method timeout description self)
     = alphanum lib path @ ''Integration''"
  by (simp add: route_integration_def new_resource_def set_prop_def Let_def split: option.splits)

lemma title_route_object [simp]:
  "title (route_object lib path http_method description api_integration self)
     = alphanum lib path @ ''Route''"
  by (simp add: route_object_def new_resource_def set_prop_def Let_def split: option.splits)

lemma h_resources_init:
  "h_resources (HttpApi_init lib name description)
     = [KStr (alphanum lib name @ ''HTTPApi'') \<mapsto> h_t_api (HttpApi_init lib name description)]"
  by (cases description) (simp_all add: HttpApi_init_def new_resource_def set_prop_def Let_def)

lemma h_resources_add_route:
  "h_resources (snd (add_route rt lib path target http_method timeout description self))
     = (if py_upper (unicode_upper rt) http_method \<in> set http_methods
           \<and> timeout_in_millis rt timeout = None
        then (h_resources self)
               (KStr (alphanum lib path @ ''Integration'') \<mapsto>
                  route_integration lib path target http_method timeout description self,
                KObj (route_object lib path http_method description
                  (route_integration lib path target http_method timeout description self) self) \<mapsto>
                  route_object lib path http_method description
                    (route_integration lib path target http_method timeout description self) self)
        else h_resources self)"
  by (simp add: add_route_def Let_def split: option.splits)

text \<open>
  Every string key of a reachable object ends in \<^verbatim>\<open>HTTPApi\<close> or \<^verbatim>\<open>Integration\<close>, so
  none ends in the letter e; and the mapping is finite.
\<close>

lemma reachable_keys:
  "reachable rt lib self \<Longrightarrow>
     finite (dom (h_resources self))
     \<and> (\<forall>t. KStr t \<in> dom (h_resources self) \<longrightarrow> t \<noteq> [] \<and> last t \<noteq> CHR ''e'')"
proof (induction rule: reachable.induct)
  case (reachable_init name description)
  show ?case
    by (simp add: h_resources_init del: fun_upd_apply)
next
  case (reachable_stage self name auto_deploy log_format)
  then show ?case by (simp add: add_stage_def split: prod.splits)
next
  case (reachable_route self path target http_method timeout description)
  then show ?case
    by (auto simp add: h_resources_add_route simp del: fun_upd_apply)
qed

text \<open>
  C6, as amended.  \<^verbatim>\<open>add_route\<close> raises \<^verbatim>\<open>ValueError\<close> exactly when the upper-cased
  \<^verbatim>\<open>http_method\<close> is none of ANY, GET, POST, PUT, PATCH, HEAD, DELETE, OPTIONS, or the
  templating library rejects the timeout that is assigned to \<^verbatim>\<open>TimeoutInMillis\<close>.  In the
  first case the error is the method's own, in the second it is the library's.  The method
  raises nothing else, and when it raises the \<^verbatim>\<open>resources\<close> mapping is as before.  For a
  method name of ASCII characters the conversion is the one of the ASCII letters.
\<close>

theorem add_route_raises_iff:
  "(raises_ValueError (fst (add_route rt lib path target http_method timeout description self))
     \<longleftrightarrow> py_upper (unicode_upper rt) http_method
           \<notin> set [''ANY'', ''GET'', ''POST'', ''PUT'', ''PATCH'', ''HEAD'', ''DELETE'', ''OPTIONS'']
         \<or> timeout_in_millis rt timeout \<noteq> None)
   \<and> (py_upper (unicode_upper rt) http_method
         \<notin> set [''ANY'', ''GET'', ''POST'', ''PUT'', ''PATCH'', ''HEAD'', ''DELETE'', ''OPTIONS'']
       \<longrightarrow> fst (add_route rt lib path target http_method timeout description self)
           = Some (ValueError (http_method @ '' is not a valid HTTP METHOD'')))
   \<and> (py_upper (unicode_upper rt) http_method
         \<in> set [''ANY'', ''GET'', ''POST'', ''PUT'', ''PATCH'', ''HEAD'', ''DELETE'', ''OPTIONS'']
       \<longrightarrow> fst (add_route rt lib path target http_method timeout description self)
           = map_option ValueError (timeout_in_millis rt timeout))
   \<and> (fst (add_route rt lib path target http_method timeout description self) = None
     \<longleftrightarrow> py_upper (unicode_upper rt) http_method
           \<in> set [''ANY'', ''GET'', ''POST'', ''PUT'', ''PATCH'', ''HEAD'', ''DELETE'', ''OPTIONS'']
         \<and> timeout_in_millis rt timeout = None)
   \<and> (list_all is_ascii http_method
       \<longrightarrow> py_upper (unicode_upper rt) http_method = str_upper http_method)
   \<and> (fst (add_route rt lib path target http_method timeout description self) \<noteq> None
     \<longrightarrow> h_resources (snd (add_route rt lib path target http_method timeout description self))
         = h_resources self)"
  by (cases "timeout_in_millis rt timeout")
    (simp_all add: add_route_def http_methods_def py_upper_def raises_ValueError_def Let_def)

theorem add_route_raises_iff_witness:
  "fst (add_route example_runtime example_lib ''items'' ''arn:aws:lambda:f'' ''fetch'' 10000 None
         example_api)
     = Some (ValueError ''fetch is not a valid HTTP METHOD'')
   \<and> h_resources (snd (add_route example_runtime example_lib ''items'' ''arn:aws:lambda:f''
          ''fetch'' 10000 None example_api))
     = h_resources example_api
   \<and> fst (add_route example_runtime example_lib ''items'' ''arn:aws:lambda:f'' ''get'' 10000 None
         example_api)
     = None
   \<and> fst (add_route example_runtime example_lib ''items'' ''arn:aws:lambda:f''
         [CHR ''p'', CHR ''o'', CHR 0xC5, CHR 0xBF, CHR ''t''] 10000 None example_api)
     = None"
  using add_route_raises_iff [of example_runtime example_lib "''items''" "''arn:aws:lambda:f''"
          "''fetch''" 10000 None example_api]
        add_route_raises_iff [of example_runtime example_lib "''items''" "''arn:aws:lambda:f''"
          "''get''" 10000 None example_api]
        add_route_raises_iff [of example_runtime example_lib "''items''" "''arn:aws:lambda:f''"
          "[CHR ''p'', CHR ''o'', CHR 0xC5, CHR 0xBF, CHR ''t'']" 10000 None example_api]
  by (simp add: str_defs py_upper_def is_ascii_def example_runtime_def)

text \<open>
  The claim as first stated fails for a valid method with a timeout that the library
  rejects: \<^verbatim>\<open>GET\<close> with a timeout of 10 raises \<^verbatim>\<open>ValueError\<close>.
\<close>

theorem add_route_timeout_counterexample:
  "py_upper (unicode_upper example_runtime) ''GET''
     \<in> set [''ANY'', ''GET'', ''POST'', ''PUT'', ''PATCH'', ''HEAD'', ''DELETE'', ''OPTIONS'']
   \<and> raises_ValueError
        (fst (add_route example_runtime example_lib ''items'' ''arn:aws:lambda:f'' ''GET'' 10 None
           example_api))"
  by (simp add: add_route_def http_methods_def py_upper_def is_ascii_def str_defs
      example_runtime_def raises_ValueError_def)

text \<open>
  C7.  \<^verbatim>\<open>add_stage\<close> raises \<^verbatim>\<open>ValueError\<close> exactly when the lower-cased \<^verbatim>\<open>log_format\<close>
  is none of none, clf, json, xml, csv and \<^verbatim>\<open>log_format\<close> does not contain
  \<^verbatim>\<open>$context.requestId\<close>; otherwise it returns normally.
\<close>

theorem add_stage_raises_iff:
  "(fst (add_stage lib name auto_deploy log_format self)
       = Some (ValueError (log_format @ '' is not a valid log format''))
     \<longleftrightarrow> str_lower log_format \<notin> set [''none'', ''clf'', ''json'', ''xml'', ''csv'']
         \<and> (\<nexists>ps ss. log_format = ps @ ''$context.requestId'' @ ss))
   \<and> (fst (add_stage lib name auto_deploy log_format self) = None
     \<longleftrightarrow> str_lower log_format \<in> set [''none'', ''clf'', ''json'', ''xml'', ''csv'']
         \<or> (\<exists>ps ss. log_format = ps @ ''$context.requestId'' @ ss))"
  unfolding str_contains_iff [symmetric]
  by (simp add: add_stage_def log_formats_def Let_def split: prod.splits)

theorem add_stage_raises_iff_witness:
  "fst (add_stage example_lib ''prod'' True ''yaml'' example_api)
     = Some (ValueError ''yaml is not a valid log format'')
   \<and> fst (add_stage example_lib ''prod'' True ''JSON'' example_api) = None
   \<and> fst (add_stage example_lib ''prod'' True ''id=$context.requestId'' example_api) = None"
proof -
  have a: "\<exists>ps ss. ''id=$context.requestId'' = ps @ ''$context.requestId'' @ ss"
    unfolding str_contains_iff [symmetric] by simp
  have b: "\<nexists>ps ss. ''yaml'' = ps @ ''$context.requestId'' @ ss"
    unfolding str_contains_iff [symmetric] by simp
  show ?thesis
    using a b
      add_stage_raises_iff [of example_lib "''prod''" True "''yaml''" example_api]
      add_stage_raises_iff [of example_lib "''prod''" True "''JSON''" example_api]
      add_stage_raises_iff [of example_lib "''prod''" True "''id=$context.requestId''"
        example_api]
    by (simp add: str_defs)
qed

text \<open>
  C9.  Whenever \<^verbatim>\<open>add_stage\<close> accepts its arguments (it does not raise), it leaves the
  object, and so its \<^verbatim>\<open>resources\<close> mapping, exactly as it was: the stage and the
  access-log settings it builds are stored nowhere.
\<close>

theorem add_stage_frame:
  "fst (add_stage lib name auto_deploy log_format self) = None
     \<longrightarrow> snd (add_stage lib name auto_deploy log_format self) = self
       \<and> h_resources (snd (add_stage lib name auto_deploy log_format self)) = h_resources self"
  by (simp add: add_stage_def split: prod.splits)

theorem add_stage_frame_witness:
  "fst (add_stage example_lib ''prod'' True ''clf'' example_api) = None
   \<and> h_resources (snd (add_stage example_lib ''prod'' True ''clf'' example_api))
       = h_resources example_api
   \<and> title (fst (add_stage_objects example_lib ''prod'' True ''clf'' example_api))
       = ''prodStage''
   \<and> h_resources example_api (KStr ''prodStage'') = None"
  using add_stage_frame [of example_lib "''prod''" True "''clf''" example_api]
  by (simp add: add_stage_def add_stage_objects_def log_formats_def str_defs Let_def
      example_api_def HttpApi_init_def example_lib_def example_alphanum_def
      new_resource_def set_prop_def split: prod.splits)

text \<open>
  C10, as amended.  After a successful \<^verbatim>\<open>add_route\<close> the Integration is stored under
  its title string \<^verbatim>\<open><alphanum(path)>Integration\<close> and the Route under the Route object
  itself; every other entry is as before.  So the mapping gains these two keys, which are
  two new entries when neither was present before.  The call creates no entry under the
  Route's title string \<^verbatim>\<open><alphanum(path)>Route\<close>, and on an object built by the
  constructor and the methods no such entry exists.
\<close>

theorem add_route_entries:
  "fst (add_route rt lib path target http_method timeout description self) = None \<longrightarrow>
     (let api_integration = route_integration lib path target http_method timeout description self;
          api_route = route_object lib path http_method description api_integration self;
          before = h_resources self;
          after = h_resources (snd (add_route rt lib path target http_method timeout description self))
      in title api_integration = alphanum lib path @ ''Integration''
         \<and> title api_route = alphanum lib path @ ''Route''
         \<and> after (KStr (title api_integration)) = Some api_integration
         \<and> after (KObj api_route) = Some api_route
         \<and> (\<forall>k. k \<noteq> KStr (title api_integration) \<and> k \<noteq> KObj api_route \<longrightarrow> after k = before k)
         \<and> dom after = dom before \<union> {KStr (title api_integration), KObj api_route}
         \<and> (finite (dom before) \<and> KStr (title api_integration) \<notin> dom before
              \<and> KObj api_route \<notin> dom before \<longrightarrow> card (dom after) = card (dom before) + 2)
         \<and> (after (KStr (title api_route)) = None \<longleftrightarrow> before (KStr (title api_route)) = None)
         \<and> (reachable rt lib self \<longrightarrow> after (KStr (title api_route)) = None))"
proof (intro impI)
  assume ok: "fst (add_route rt lib path target http_method timeout description self) = None"
  then have m: "py_upper (unicode_upper rt) http_method \<in> set http_methods"
    and t: "timeout_in_millis rt timeout = None"
    by (simp_all add: add_route_def split: if_splits option.splits)
  define api_integration where
    "api_integration = route_integration lib path target http_method timeout description self"
  define api_route where
    "api_route = route_object lib path http_method description api_integration self"
  have after: "h_resources (snd (add_route rt lib path target http_method timeout description self))
      = (h_resources self)(KStr (title api_integration) \<mapsto> api_integration,
                           KObj api_route \<mapsto> api_route)"
    using m t by (simp add: add_route_def Let_def api_integration_def api_route_def)
  have t1: "title api_integration = alphanum lib path @ ''Integration''"
    by (simp add: api_integration_def)
  have t2: "title api_route = alphanum lib path @ ''Route''"
    by (simp add: api_route_def)
  have ne: "title api_route \<noteq> title api_integration"
  proof
    assume "title api_route = title api_integration"
    then have "last (alphanum lib path @ ''Route'') = last (alphanum lib path @ ''Integration'')"
      using t1 t2 by simp
    then show False by simp
  qed
  have r: "reachable rt lib self \<Longrightarrow> h_resources self (KStr (title api_route)) = None"
  proof -
    assume "reachable rt lib self"
    from reachable_keys [OF this] have "KStr (title api_route) \<notin> dom (h_resources self)"
      unfolding t2 by auto
    then show ?thesis by auto
  qed
  have c: "finite (dom (h_resources self))
      \<Longrightarrow> KStr (title api_integration) \<notin> dom (h_resources self)
      \<Longrightarrow> KObj api_route \<notin> dom (h_resources self)
      \<Longrightarrow> card (dom ((h_resources self)(KStr (title api_integration) \<mapsto> api_integration,
                                           KObj api_route \<mapsto> api_route)))
         = card (dom (h_resources self)) + 2"
    by simp
  show "let api_integration = route_integration lib path target http_method timeout description self;
          api_route = route_object lib path http_method description api_integration self;
          before = h_resources self;
          after = h_resources (snd (add_route rt lib path target http_method timeout description self))
      in title api_integration = alphanum lib path @ ''Integration''
         \<and> title api_route = alphanum lib path @ ''Route''
         \<and> after (KStr (title api_integration)) = Some api_integration
         \<and> after (KObj api_route) = Some api_route
         \<and> (\<forall>k. k \<noteq> KStr (title api_integration) \<and> k \<noteq> KObj api_route \<longrightarrow> after k = before k)
         \<and> dom after = dom before \<union> {KStr (title api_integration), KObj api_route}
         \<and> (finite (dom before) \<and> KStr (title api_integration) \<notin> dom before
              \<and> KObj api_route \<notin> dom before \<longrightarrow> card (dom after) = card (dom before) + 2)
         \<and> (after (KStr (title api_route)) = None \<longleftrightarrow> before (KStr (title api_route)) = None)
         \<and> (reachable rt lib self \<longrightarrow> after (KStr (title api_route)) = None)"
    unfolding Let_def api_integration_def [symmetric] api_route_def [symmetric] after
    using t1 t2 ne r c by auto
qed

theorem add_route_entries_witness:
  "fst (add_route example_runtime example_lib ''items'' ''arn:aws:lambda:f'' ''GET'' 10000 None example_api) = None
   \<and> h_resources (snd (add_route example_runtime example_lib ''items'' ''arn:aws:lambda:f'' ''GET'' 10000 None
        example_api)) (KStr ''itemsIntegration'')
      = Some (route_integration example_lib ''items'' ''arn:aws:lambda:f'' ''GET'' 10000 None
          example_api)
   \<and> h_resources (snd (add_route example_runtime example_lib ''items'' ''arn:aws:lambda:f'' ''GET'' 10000 None
        example_api)) (KStr ''itemsRoute'') = None
   \<and> card (dom (h_resources (snd (add_route example_runtime example_lib ''items'' ''arn:aws:lambda:f'' ''GET''
        10000 None example_api))))
      = card (dom (h_resources example_api)) + 2"
proof -
  have ok: "fst (add_route example_runtime example_lib ''items'' ''arn:aws:lambda:f'' ''GET'' 10000 None
      example_api) = None"
    by (simp add: add_route_def http_methods_def py_upper_def is_ascii_def str_defs
        example_runtime_def Let_def)
  have re: "reachable example_runtime example_lib example_api"
    unfolding example_api_def by (rule reachable_init)
  have d: "dom (h_resources example_api) = {KStr ''demoHTTPApi''}"
    by (simp add: example_api_def h_resources_init ex_alnum_demo)
  show ?thesis
    using add_route_entries [of example_runtime example_lib "''items''" "''arn:aws:lambda:f''" "''GET''"
        10000 None example_api] ok re d
    by (simp add: Let_def ex_alnum_items)
qed

text \<open>
  The claim as first stated fails when the Integration's title is already a key: a POST
  route added after a GET route on the same path replaces the Integration entry, and the
  call adds fewer than two entries.
\<close>

theorem add_route_gains_two_counterexample:
  "fst (add_route example_runtime example_lib ''items'' ''arn:aws:lambda:f'' ''POST'' 10000 None
         (snd (add_route example_runtime example_lib ''items'' ''arn:aws:lambda:f'' ''GET'' 10000 None
            example_api))) = None
   \<and> card (dom (h_resources (snd (add_route example_runtime example_lib ''items'' ''arn:aws:lambda:f'' ''POST''
         10000 None
         (snd (add_route example_runtime example_lib ''items'' ''arn:aws:lambda:f'' ''GET'' 10000 None
            example_api))))))
      \<noteq> card (dom (h_resources
         (snd (add_route example_runtime example_lib ''items'' ''arn:aws:lambda:f'' ''GET'' 10000 None
            example_api)))) + 2"
proof -
  define api1 where
    "api1 = snd (add_route example_runtime example_lib ''items'' ''arn:aws:lambda:f'' ''GET'' 10000 None
       example_api)"
  have get: "py_upper (unicode_upper example_runtime) ''GET'' \<in> set http_methods"
    and post: "py_upper (unicode_upper example_runtime) ''POST'' \<in> set http_methods"
    and t: "timeout_in_millis example_runtime 10000 = None"
    by (simp_all add: http_methods_def py_upper_def is_ascii_def str_defs example_runtime_def)
  have ok: "fst (add_route example_runtime example_lib ''items'' ''arn:aws:lambda:f'' ''POST'' 10000 None api1)
      = None"
    using post t by (simp add: add_route_def Let_def)
  have fin: "finite (dom (h_resources api1))"
    unfolding api1_def h_resources_add_route using get t
    by (simp add: example_api_def h_resources_init del: fun_upd_apply)
  have mem: "KStr ''itemsIntegration'' \<in> dom (h_resources api1)"
    unfolding api1_def h_resources_add_route using get t
    by (simp add: ex_alnum_items del: fun_upd_apply)
  obtain r where d: "dom (h_resources (snd (add_route example_runtime example_lib ''items''
        ''arn:aws:lambda:f'' ''POST'' 10000 None api1)))
      = insert (KObj r) (dom (h_resources api1))"
    using mem post t
    unfolding h_resources_add_route [of example_runtime example_lib "''items''" _ "''POST''"]
    by (auto simp add: ex_alnum_items insert_absorb simp del: fun_upd_apply)
  have "card (insert (KObj r) (dom (h_resources api1))) \<le> card (dom (h_resources api1)) + 1"
    using fin by (simp add: card_insert_if)
  then show ?thesis
    using ok d unfolding api1_def [symmetric] by simp
qed

section \<open>Properties of decimal numbers and of titles\<close>

lemma str_nat_small: "n < 10 \<Longrightarrow> str_nat n = [digit_char n]"
  by (subst str_nat.simps) simp

lemma str_nat_large: "\<not> n < 10 \<Longrightarrow> str_nat n = str_nat (n div 10) @ [digit_char (n mod 10)]"
  by (subst str_nat.simps) simp

lemma digit_char_is_digit: "d < 10 \<Longrightarrow> is_digit (digit_char d)"
proof -
  assume "d < 10"
  then have "d < length ''0123456789''" by simp
  then have "''0123456789'' ! d \<in> set ''0123456789''" by (rule nth_mem)
  then show ?thesis unfolding is_digit_def digit_char_def .
qed

lemma digit_char_inj: "a < 10 \<Longrightarrow> b < 10 \<Longrightarrow> digit_char a = digit_char b \<Longrightarrow> a = b"
proof -
  assume a: "a < 10" and b: "b < 10" and e: "digit_char a = digit_char b"
  have d: "distinct ''0123456789''" by simp
  have l: "length ''0123456789'' = 10" by simp
  show ?thesis using e a b d l unfolding digit_char_def
    by (metis nth_eq_iff_index_eq)
qed

lemma str_nat_digits: "\<forall>c \<in> set (str_nat n). is_digit c"
proof (induction n rule: str_nat.induct)
  case (1 n)
  show ?case
  proof (cases "n < 10")
    case True
    then show ?thesis by (simp add: str_nat_small digit_char_is_digit)
  next
    case False
    then have "str_nat n = str_nat (n div 10) @ [digit_char (n mod 10)]" by (rule str_nat_large)
    moreover have "is_digit (digit_char (n mod 10))" by (simp add: digit_char_is_digit)
    ultimately show ?thesis using 1 False by auto
  qed
qed

lemma str_nat_nonempty: "str_nat n \<noteq> []"
  by (cases "n < 10") (simp_all add: str_nat_small str_nat_large)

lemma str_nat_inj: "str_nat a = str_nat b \<Longrightarrow> a = b"
proof (induction a arbitrary: b rule: str_nat.induct)
  case (1 n)
  show ?case
  proof (cases "n < 10")
    case True
    note n = this
    show ?thesis
    proof (cases "b < 10")
      case True
      then show ?thesis using n "1.prems" by (simp add: str_nat_small digit_char_inj)
    next
      case False
      then have "str_nat b = str_nat (b div 10) @ [digit_char (b mod 10)]" by (rule str_nat_large)
      moreover have "str_nat n = [digit_char n]" using n by (rule str_nat_small)
      ultimately have "str_nat (b div 10) = []" using "1.prems" by simp
      then show ?thesis using str_nat_nonempty by blast
    qed
  next
    case False
    note n = this
    then have sn: "str_nat n = str_nat (n div 10) @ [digit_char (n mod 10)]" by (rule str_nat_large)
    show ?thesis
    proof (cases "b < 10")
      case True
      then have "str_nat b = [digit_char b]" by (rule str_nat_small)
      then have "str_nat (n div 10) = []" using sn "1.prems" by simp
      then show ?thesis using str_nat_nonempty by blast
    next
      case False
      then have sb: "str_nat b = str_nat (b div 10) @ [digit_char (b mod 10)]" by (rule str_nat_large)
      from sn sb "1.prems" have e1: "str_nat (n div 10) = str_nat (b div 10)"
        and e2: "digit_char (n mod 10) = digit_char (b mod 10)" by simp_all
      from "1.IH" [OF n e1] have "n div 10 = b div 10" .
      moreover from e2 have "n mod 10 = b mod 10" by (simp add: digit_char_inj)
      ultimately show ?thesis by (metis div_mult_mod_eq)
    qed
  qed
qed

lemma takeWhile_digits: "no_leading_digit s \<Longrightarrow> takeWhile is_digit (str_nat n @ s) = str_nat n"
  using str_nat_digits [of n]
  by (cases s) (auto simp: no_leading_digit_def takeWhile_append)

lemma str_nat_append_inj:
  assumes "no_leading_digit s1" "no_leading_digit s2" "str_nat a @ s1 = str_nat b @ s2"
  shows "a = b \<and> s1 = s2"
proof -
  have "takeWhile is_digit (str_nat a @ s1) = takeWhile is_digit (str_nat b @ s2)"
    using assms(3) by simp
  then have "str_nat a = str_nat b" using assms(1,2) by (simp add: takeWhile_digits)
  then have "a = b" by (rule str_nat_inj)
  then show ?thesis using assms(3) by simp
qed

lemma lower_upper_disjoint: "set ascii_lowercase \<inter> set ascii_uppercase = {}"
proof -
  have "distinct (ascii_lowercase @ ascii_uppercase)"
    by (simp add: ascii_uppercase_def ascii_lowercase_def)
  then show ?thesis by simp
qed

lemma digits_upper_disjoint: "set ''0123456789'' \<inter> set ascii_uppercase = {}"
proof -
  have "distinct (''0123456789'' @ ascii_uppercase)"
    by (simp add: ascii_uppercase_def)
  then show ?thesis by simp
qed

lemma length_ascii: "length ascii_uppercase = length ascii_lowercase"
  by (simp add: ascii_uppercase_def ascii_lowercase_def)

lemma lower_char_not_upper: "\<not> is_upper (lower_char c)"
proof (cases "map_of (zip ascii_uppercase ascii_lowercase) c")
  case None
  then have "c \<notin> set ascii_uppercase"
    using map_of_zip_is_None [OF length_ascii] by blast
  then show ?thesis using None by (simp add: lower_char_def is_upper_def)
next
  case (Some d)
  then have "(c, d) \<in> set (zip ascii_uppercase ascii_lowercase)" by (rule map_of_SomeD)
  then have "d \<in> set ascii_lowercase" by (rule set_zip_rightD)
  then have "d \<notin> set ascii_uppercase"
    using lower_upper_disjoint by blast
  then show ?thesis using Some by (simp add: lower_char_def is_upper_def)
qed

lemma digit_not_upper: "is_digit c \<Longrightarrow> \<not> is_upper c"
  using digits_upper_disjoint by (auto simp: is_upper_def is_digit_def)

section \<open>The list that multiaz_subnets returns\<close>

lemma reassign_idem [simp]: "reassign (reassign vid obj) obj = reassign vid obj"
  by (cases obj) (auto simp: reassign_def)

lemma subnets_step_eq:
  "subnets_step mk acl rt (rs, nid, rid) item =
     (rs @ subnet_block mk (reassign nid acl) (reassign rid rt) item, reassign nid acl, reassign rid rt)"
  by (cases item)
     (simp add: subnets_step_def subnet_block_def reassign_def Let_def split: option.splits)

lemma foldl_subnets_step:
  "fst (foldl (subnets_step mk acl rt) (rs, nid, rid) items)
     = rs @ concat (map (subnet_block mk (reassign nid acl) (reassign rid rt)) items)"
proof (induction items arbitrary: rs nid rid)
  case Nil
  show ?case by simp
next
  case (Cons item items)
  show ?case by (simp add: subnets_step_eq Cons.IH)
qed

lemma effective_id_simps [simp]:
  "effective_id None obj = map_option Ref obj"
  "effective_id (Some i) obj = Some (Str i)"
  by (simp_all add: effective_id_def)

lemma reassign_effective: "reassign (map_option Str rid) obj = effective_id rid obj"
  by (cases rid) (auto simp: reassign_def effective_id_def)

lemma multiaz_subnets_with_eq:
  "multiaz_subnets_with mk lib name_prefix cidr_block region vpc vpc_id no_of_subnets
       network_acl network_acl_id route_table route_table_id =
   (case effective_id vpc_id vpc of
      None \<Rightarrow> Inl (ValueError ''One of vpc or vpc_id must be specified'')
    | Some v \<Rightarrow>
       (case split_net_across_zones lib cidr_block region no_of_subnets of
          Inl e \<Rightarrow> Inl (Propagated e)
        | Inr net_split \<Rightarrow>
            Inr (concat (map (subnet_block
                   (mk name_prefix (capitalize (str_lower (alphanum lib name_prefix))) v)
                   (effective_id network_acl_id network_acl)
                   (effective_id route_table_id route_table))
                 (enumerate 0 net_split)))))"
  by (cases vpc; cases vpc_id)
     (simp_all add: multiaz_subnets_with_def Let_def foldl_subnets_step
        reassign_effective split: sum.splits)

lemma enumerate_nth: "enumerate 0 xs = map (\<lambda>i. (i, xs ! i)) [0..<length xs]"
  by (rule nth_equalityI) (simp_all add: nth_enumerate_eq)

lemma concat_map_single:
  "i < n \<Longrightarrow> concat (map (\<lambda>j. if j = i then [f j] else []) [0..<n]) = [f i]"
proof (induction n)
  case 0
  then show ?case by simp
next
  case (Suc n)
  show ?case
  proof (cases "i = n")
    case True
    have "concat (map (\<lambda>j. if j = i then [f j] else []) [0..<n]) = []"
      using True by (induction n) auto
    then show ?thesis using True by simp
  next
    case False
    then have "i < n" using Suc.prems by simp
    then show ?thesis using Suc.IH False by simp
  qed
qed

lemma concat_map_none:
  "concat (map (\<lambda>j. []) xs) = []"
  by (induction xs) auto

lemma nld_simps [simp]:
  "no_leading_digit []"
  "no_leading_digit ''NaclAssociation''"
  "no_leading_digit ''RouteAssociation''"
  by (simp_all add: no_leading_digit_def is_digit_def)

lemma str_nat_eq_iff: "(str_nat a = str_nat b) = (a = b)"
  using str_nat_inj by auto

lemma str_nat_app_eq_iff:
  "no_leading_digit s1 \<Longrightarrow> no_leading_digit s2 \<Longrightarrow>
     (str_nat a @ s1 = str_nat b @ s2) = (a = b \<and> s1 = s2)"
  using str_nat_append_inj [of s1 s2 a b] by auto

lemma str_nat_app_eq_iff_l:
  "no_leading_digit s2 \<Longrightarrow> (str_nat a = str_nat b @ s2) = (a = b \<and> s2 = [])"
  using str_nat_app_eq_iff [of "[]" s2 a b] by auto

lemma str_nat_app_eq_iff_r:
  "no_leading_digit s1 \<Longrightarrow> (str_nat a @ s1 = str_nat b) = (a = b \<and> s1 = [])"
  using str_nat_app_eq_iff [of s1 "[]" a b] by auto

lemmas title_eqs = str_nat_eq_iff str_nat_app_eq_iff str_nat_app_eq_iff_l str_nat_app_eq_iff_r

lemma assoc_simps [simp]:
  "title (nacl_association s a) = title s @ ''NaclAssociation''"
  "rtype (nacl_association s a) = ''AWS::EC2::SubnetNetworkAclAssociation''"
  "Properties (nacl_association s a) ''SubnetId'' = Some (Ref s)"
  "Properties (nacl_association s a) ''NetworkAclId'' = Some a"
  "Metadata (nacl_association s a) = None"
  "title (route_association s a) = title s @ ''RouteAssociation''"
  "rtype (route_association s a) = ''AWS::EC2::SubnetRouteTableAssociation''"
  "Properties (route_association s a) ''SubnetId'' = Some (Ref s)"
  "Properties (route_association s a) ''RouteTableId'' = Some a"
  "Metadata (route_association s a) = None"
  by (simp_all add: nacl_association_def route_association_def new_resource_def)

lemma ec2_subnet_simps [simp]:
  "title (ec2_subnet name_prefix prefix v i seg) = prefix @ str_nat (i + 1)"
  "rtype (ec2_subnet name_prefix prefix v i seg) = ''AWS::EC2::Subnet''"
  "Properties (ec2_subnet name_prefix prefix v i seg) ''AvailabilityZone'' = Some (Str (az seg))"
  "Properties (ec2_subnet name_prefix prefix v i seg) ''CidrBlock'' = Some (Str (cidr seg))"
  "Properties (ec2_subnet name_prefix prefix v i seg) ''VpcId'' = Some v"
  "Properties (ec2_subnet name_prefix prefix v i seg) ''Tags''
     = Some (name_tag (name_prefix @ '' '' @ str_upper (last_char (az seg))))"
  "Metadata (ec2_subnet name_prefix prefix v i seg)
     = Some \<lparr>m_az = str_lower (az seg), m_az_index = str_upper (last_char (az seg)),
             m_suffix = i + 1\<rparr>"
  by (simp_all add: ec2_subnet_def new_resource_def Let_def)

lemma init_subnet_simps [simp]:
  "title (init_subnet name_prefix prefix v i seg) = prefix @ str_nat (i + 1)"
  "rtype (init_subnet name_prefix prefix v i seg) = ''AWS::EC2::Subnet''"
  "Properties (init_subnet name_prefix prefix v i seg) ''AvailabilityZone'' = Some (Str (az seg))"
  "Properties (init_subnet name_prefix prefix v i seg) ''CidrBlock'' = Some (Str (cidr seg))"
  "Properties (init_subnet name_prefix prefix v i seg) ''VpcId'' = Some v"
  "Properties (init_subnet name_prefix prefix v i seg) ''Tags''
     = Some (name_tag (name_prefix @ '' '' @ str_nat (i + 1) @ ''(''
                        @ str_upper (last_char (az seg)) @ '')''))"
  "Metadata (init_subnet name_prefix prefix v i seg) = None"
  by (simp_all add: init_subnet_def new_resource_def Let_def)

lemma multiaz_subnets_with_blocks:
  assumes "multiaz_subnets_with mk lib name_prefix cidr_block region vpc vpc_id no_of_subnets
       network_acl network_acl_id route_table route_table_id = Inr resources"
  shows "\<exists>net_split v. split_net_across_zones lib cidr_block region no_of_subnets = Inr net_split
      \<and> effective_id vpc_id vpc = Some v
      \<and> resources = blocks
           (\<lambda>i. mk name_prefix (capitalize (str_lower (alphanum lib name_prefix))) v i (net_split ! i))
           (effective_id network_acl_id network_acl)
           (effective_id route_table_id route_table) (length net_split)"
  using assms unfolding multiaz_subnets_with_eq
  by (auto simp: blocks_def enumerate_nth subnet_block_def comp_def split: option.splits sum.splits)

lemma filter_concat_map:
  "filter P (concat (map f xs)) = concat (map (\<lambda>x. filter P (f x)) xs)"
  by (induction xs) auto

lemma concat_map_singleton: "concat (map (\<lambda>x. [f x]) xs) = map f xs"
  by (induction xs) auto

lemma blocks_subnets:
  assumes "\<And>i. rtype (sub i) = ''AWS::EC2::Subnet''"
  shows "[r \<leftarrow> blocks sub acl rt n. rtype r = ''AWS::EC2::Subnet''] = map sub [0..<n]"
  unfolding blocks_def filter_concat_map
  by (cases acl; cases rt) (simp_all add: assms concat_map_singleton)

lemma blocks_nacl:
  assumes "\<And>i. title (sub i) = p @ str_nat (i + 1)" and "i < n"
  shows "[r \<leftarrow> blocks sub (Some a) rt n. title r = title (sub i) @ ''NaclAssociation'']
           = [nacl_association (sub i) a]"
proof -
  have "[r \<leftarrow> blocks sub (Some a) rt n. title r = title (sub i) @ ''NaclAssociation'']
      = concat (map (\<lambda>j. if j = i then [nacl_association (sub j) a] else []) [0..<n])"
    unfolding blocks_def filter_concat_map
    by (cases rt) (auto simp: assms(1) title_eqs intro!: arg_cong [where f = concat])
  then show ?thesis using concat_map_single [OF assms(2)] by simp
qed

lemma blocks_route:
  assumes "\<And>i. title (sub i) = p @ str_nat (i + 1)" and "i < n"
  shows "[r \<leftarrow> blocks sub acl (Some a) n. title r = title (sub i) @ ''RouteAssociation'']
           = [route_association (sub i) a]"
proof -
  have "[r \<leftarrow> blocks sub acl (Some a) n. title r = title (sub i) @ ''RouteAssociation'']
      = concat (map (\<lambda>j. if j = i then [route_association (sub j) a] else []) [0..<n])"
    unfolding blocks_def filter_concat_map
    by (cases acl) (auto simp: assms(1) title_eqs intro!: arg_cong [where f = concat])
  then show ?thesis using concat_map_single [OF assms(2)] by simp
qed

lemma blocks_no_nacl:
  assumes "\<And>i. rtype (sub i) = ''AWS::EC2::Subnet''"
  shows "[r \<leftarrow> blocks sub None rt n. rtype r = ''AWS::EC2::SubnetNetworkAclAssociation''] = []"
  unfolding blocks_def filter_concat_map
  by (cases rt) (simp_all add: assms)

lemma blocks_no_route:
  assumes "\<And>i. rtype (sub i) = ''AWS::EC2::Subnet''"
  shows "[r \<leftarrow> blocks sub acl None n. rtype r = ''AWS::EC2::SubnetRouteTableAssociation''] = []"
  unfolding blocks_def filter_concat_map
  by (cases acl) (simp_all add: assms)

lemma blocks_only_subnets: "blocks sub None None n = map sub [0..<n]"
  by (simp add: blocks_def concat_map_singleton)

lemma length_concat_const:
  "(\<And>x. length (f x) = k) \<Longrightarrow> length (concat (map f xs)) = length xs * k"
  by (induction xs) auto

lemma length_blocks:
  "length (blocks sub acl rt n)
     = n * (1 + (if acl = None then 0 else 1) + (if rt = None then 0 else 1))"
  unfolding blocks_def
  by (rule trans [OF length_concat_const [where k = "1 + (if acl = None then 0 else 1) + (if rt = None then 0 else 1)"]])
     (auto split: option.splits)

lemma multiaz_subnets_with_raises:
  "((\<exists>msg. multiaz_subnets_with mk lib name_prefix cidr_block region vpc vpc_id no_of_subnets
        network_acl network_acl_id route_table route_table_id = Inl (ValueError msg))
      \<longleftrightarrow> vpc = None \<and> vpc_id = None)
   \<and> (vpc = None \<and> vpc_id = None \<longrightarrow>
        multiaz_subnets_with mk lib name_prefix cidr_block region vpc vpc_id no_of_subnets
          network_acl network_acl_id route_table route_table_id
        = Inl (ValueError ''One of vpc or vpc_id must be specified''))
   \<and> (\<not> (vpc = None \<and> vpc_id = None) \<longrightarrow>
        (case split_net_across_zones lib cidr_block region no_of_subnets of
           Inl e \<Rightarrow>
             multiaz_subnets_with mk lib name_prefix cidr_block region vpc vpc_id no_of_subnets
               network_acl network_acl_id route_table route_table_id = Inl (Propagated e)
         | Inr net_split \<Rightarrow>
             (\<exists>resources.
               multiaz_subnets_with mk lib name_prefix cidr_block region vpc vpc_id no_of_subnets
                 network_acl network_acl_id route_table route_table_id = Inr resources)))"
  unfolding multiaz_subnets_with_eq
  by (cases vpc; cases vpc_id) (auto split: sum.splits)

text \<open>
  C2.  Either definition of \<^verbatim>\<open>multiaz_subnets\<close> raises \<^verbatim>\<open>ValueError\<close> exactly when
  \<^verbatim>\<open>vpc\<close> and \<^verbatim>\<open>vpc_id\<close> are both \<^verbatim>\<open>None\<close>.  When one of them is given, the function
  raises nothing of its own: it returns a list, unless the splitting helper raises, and
  then that exception is the one that propagates.
\<close>

theorem multiaz_subnets_raises_iff:
  assumes "f = multiaz_subnets \<or> f = init_multiaz_subnets"
  shows
  "((\<exists>msg. f lib name_prefix cidr_block region vpc vpc_id no_of_subnets
        network_acl network_acl_id route_table route_table_id = Inl (ValueError msg))
      \<longleftrightarrow> vpc = None \<and> vpc_id = None)
   \<and> (vpc = None \<and> vpc_id = None \<longrightarrow>
        f lib name_prefix cidr_block region vpc vpc_id no_of_subnets
          network_acl network_acl_id route_table route_table_id
        = Inl (ValueError ''One of vpc or vpc_id must be specified''))
   \<and> (\<not> (vpc = None \<and> vpc_id = None) \<longrightarrow>
        (case split_net_across_zones lib cidr_block region no_of_subnets of
           Inl e \<Rightarrow>
             f lib name_prefix cidr_block region vpc vpc_id no_of_subnets
               network_acl network_acl_id route_table route_table_id = Inl (Propagated e)
         | Inr net_split \<Rightarrow>
             (\<exists>resources.
               f lib name_prefix cidr_block region vpc vpc_id no_of_subnets
                 network_acl network_acl_id route_table route_table_id = Inr resources)))"
  using assms
proof
  assume f: "f = multiaz_subnets"
  show ?thesis unfolding f multiaz_subnets_def by (rule multiaz_subnets_with_raises)
next
  assume f: "f = init_multiaz_subnets"
  show ?thesis unfolding f init_multiaz_subnets_def by (rule multiaz_subnets_with_raises)
qed

lemma example_prefix: "capitalize (str_lower (alphanum example_lib ''web'')) = ''Web''"
  by (simp add: example_lib_def example_alphanum_def capitalize_def str_defs)

lemma example_split:
  "split_net_across_zones example_lib net region subnets =
     Inr [\<lparr>az = ''eu-west-1a'', cidr = ''10.0.0.0/26''\<rparr>,
          \<lparr>az = ''eu-west-1b'', cidr = ''10.0.0.64/26''\<rparr>,
          \<lparr>az = ''eu-west-1c'', cidr = ''10.0.0.128/26''\<rparr>]"
  by (simp add: example_lib_def)

lemma str_nat_digits_simps [simp]:
  "str_nat 0 = ''0''" "str_nat 1 = ''1''" "str_nat 2 = ''2''" "str_nat 3 = ''3''" "str_nat 4 = ''4''"
  "str_nat (Suc 0) = ''1''" "str_nat (Suc (Suc 0)) = ''2''" "str_nat (Suc (Suc (Suc 0))) = ''3''"
  by (simp_all add: str_nat_small digit_char_def)

theorem multiaz_subnets_raises_iff_witness:
  "multiaz_subnets example_lib ''web'' ''10.0.0.0/24'' ''eu-west-1'' None None 4
      None None None None
     = Inl (ValueError ''One of vpc or vpc_id must be specified'')
   \<and> (\<exists>resources.
        init_multiaz_subnets example_lib ''web'' ''10.0.0.0/24'' ''eu-west-1'' None (Some ''vpc-1'') 4
          None None None None = Inr resources)"
  using multiaz_subnets_raises_iff [of multiaz_subnets example_lib "''web''" "''10.0.0.0/24''"
          "''eu-west-1''" None None 4 None None None None]
        multiaz_subnets_raises_iff [of init_multiaz_subnets example_lib "''web''" "''10.0.0.0/24''"
          "''eu-west-1''" None "Some ''vpc-1''" 4 None None None None]
  by (simp add: example_split)

text \<open>
  C3.  In the list returned by a successful call there is, for every subnet, exactly one
  element titled \<^verbatim>\<open><subnet title>NaclAssociation\<close> when a network ACL is supplied: a
  \<^verbatim>\<open>SubnetNetworkAclAssociation\<close> whose \<^verbatim>\<open>SubnetId\<close> refers to the subnet and whose
  \<^verbatim>\<open>NetworkAclId\<close> is the supplied id, or a reference to the supplied resource when no id
  is given.  The same holds for \<^verbatim>\<open><subnet title>RouteAssociation\<close> and a supplied route
  table.  Without a network ACL the list has no network ACL association, without a route
  table no route table association, and with neither it consists of the subnets alone.
  The length of the list shows that it has no further elements.
\<close>

theorem multiaz_subnets_associations:
  assumes "(f, mk) = (multiaz_subnets, ec2_subnet) \<or> (f, mk) = (init_multiaz_subnets, init_subnet)"
    and "f lib name_prefix cidr_block region vpc vpc_id no_of_subnets
           network_acl network_acl_id route_table route_table_id = Inr resources"
  shows "\<exists>net_split v.
     split_net_across_zones lib cidr_block region no_of_subnets = Inr net_split
     \<and> effective_id vpc_id vpc = Some v
     \<and> (let prefix = capitalize (str_lower (alphanum lib name_prefix));
             subnet = (\<lambda>i. mk name_prefix prefix v i (net_split ! i));
             acl = effective_id network_acl_id network_acl;
             rt = effective_id route_table_id route_table;
             n = length net_split
         in [r \<leftarrow> resources. rtype r = ''AWS::EC2::Subnet''] = map subnet [0..<n]
            \<and> (\<forall>i<n. title (subnet i) = prefix @ str_nat (i + 1))
            \<and> (\<forall>a. acl = Some a \<longrightarrow> (\<forall>i<n.
                  [r \<leftarrow> resources. title r = title (subnet i) @ ''NaclAssociation'']
                    = [nacl_association (subnet i) a]
                  \<and> rtype (nacl_association (subnet i) a)
                      = ''AWS::EC2::SubnetNetworkAclAssociation''
                  \<and> Properties (nacl_association (subnet i) a) ''SubnetId''
                      = Some (Ref (subnet i))
                  \<and> Properties (nacl_association (subnet i) a) ''NetworkAclId'' = Some a))
            \<and> (acl = None \<longrightarrow>
                  [r \<leftarrow> resources. rtype r = ''AWS::EC2::SubnetNetworkAclAssociation''] = [])
            \<and> (\<forall>a. rt = Some a \<longrightarrow> (\<forall>i<n.
                  [r \<leftarrow> resources. title r = title (subnet i) @ ''RouteAssociation'']
                    = [route_association (subnet i) a]
                  \<and> rtype (route_association (subnet i) a)
                      = ''AWS::EC2::SubnetRouteTableAssociation''
                  \<and> Properties (route_association (subnet i) a) ''SubnetId''
                      = Some (Ref (subnet i))
                  \<and> Properties (route_association (subnet i) a) ''RouteTableId'' = Some a))
            \<and> (rt = None \<longrightarrow>
                  [r \<leftarrow> resources. rtype r = ''AWS::EC2::SubnetRouteTableAssociation''] = [])
            \<and> (acl = None \<and> rt = None \<longrightarrow> resources = map subnet [0..<n])
            \<and> length resources
                = n * (1 + (if acl = None then 0 else 1) + (if rt = None then 0 else 1)))"
proof -
  define prefix where "prefix = capitalize (str_lower (alphanum lib name_prefix))"
  have w: "multiaz_subnets_with mk lib name_prefix cidr_block region vpc vpc_id no_of_subnets
           network_acl network_acl_id route_table route_table_id = Inr resources"
    using assms by (auto simp: multiaz_subnets_def init_multiaz_subnets_def)
  have mk_title: "\<And>v i seg. title (mk name_prefix prefix v i seg) = prefix @ str_nat (i + 1)"
    and mk_rtype: "\<And>v i seg. rtype (mk name_prefix prefix v i seg) = ''AWS::EC2::Subnet''"
    using assms(1) by auto
  from multiaz_subnets_with_blocks [OF w] obtain net_split v where
    split: "split_net_across_zones lib cidr_block region no_of_subnets = Inr net_split"
    and v: "effective_id vpc_id vpc = Some v"
    and res: "resources = blocks (\<lambda>i. mk name_prefix prefix v i (net_split ! i))
           (effective_id network_acl_id network_acl)
           (effective_id route_table_id route_table) (length net_split)"
    unfolding prefix_def by blast
  define subnet where "subnet = (\<lambda>i. mk name_prefix prefix v i (net_split ! i))"
  have st: "\<And>i. title (subnet i) = prefix @ str_nat (i + 1)"
    and sr: "\<And>i. rtype (subnet i) = ''AWS::EC2::Subnet''"
    by (simp_all add: subnet_def mk_title mk_rtype)
  note res' = res [folded subnet_def]
  have 1: "[r \<leftarrow> resources. rtype r = ''AWS::EC2::Subnet''] = map subnet [0..<length net_split]"
    unfolding res' by (rule blocks_subnets) (rule sr)
  have 2: "\<And>a i. effective_id network_acl_id network_acl = Some a \<Longrightarrow> i < length net_split \<Longrightarrow>
      [r \<leftarrow> resources. title r = title (subnet i) @ ''NaclAssociation'']
        = [nacl_association (subnet i) a]"
    unfolding res' using blocks_nacl [of subnet prefix, OF st] by simp
  have 3: "effective_id network_acl_id network_acl = None \<Longrightarrow>
      [r \<leftarrow> resources. rtype r = ''AWS::EC2::SubnetNetworkAclAssociation''] = []"
    unfolding res' using blocks_no_nacl [of subnet, OF sr] by simp
  have 4: "\<And>a i. effective_id route_table_id route_table = Some a \<Longrightarrow> i < length net_split \<Longrightarrow>
      [r \<leftarrow> resources. title r = title (subnet i) @ ''RouteAssociation'']
        = [route_association (subnet i) a]"
    unfolding res' using blocks_route [of subnet prefix, OF st] by simp
  have 5: "effective_id route_table_id route_table = None \<Longrightarrow>
      [r \<leftarrow> resources. rtype r = ''AWS::EC2::SubnetRouteTableAssociation''] = []"
    unfolding res' using blocks_no_route [of subnet, OF sr] by simp
  have 6: "effective_id network_acl_id network_acl = None \<Longrightarrow>
      effective_id route_table_id route_table = None \<Longrightarrow>
      resources = map subnet [0..<length net_split]"
    unfolding res' by (simp add: blocks_only_subnets)
  have 7: "length resources = length net_split
      * (1 + (if effective_id network_acl_id network_acl = None then 0 else 1)
           + (if effective_id route_table_id route_table = None then 0 else 1))"
    unfolding res' by (rule length_blocks)
  show ?thesis
    apply (rule exI [of _ net_split], rule exI [of _ v])
    using split v 1 2 3 4 5 6 7 st
    unfolding Let_def prefix_def [symmetric] subnet_def by simp
qed

theorem multiaz_subnets_associations_witness:
  "\<exists>resources.
     multiaz_subnets example_lib ''web'' ''10.0.0.0/24'' ''eu-west-1'' None (Some ''vpc-1'') 4
       None (Some ''acl-1'') None None = Inr resources
     \<and> length resources = 6
     \<and> [r \<leftarrow> resources. title r = ''Web2NaclAssociation'']
         = [nacl_association
              (ec2_subnet ''web'' ''Web'' (Str ''vpc-1'') 1
                 \<lparr>az = ''eu-west-1b'', cidr = ''10.0.0.64/26''\<rparr>) (Str ''acl-1'')]
     \<and> [r \<leftarrow> resources. rtype r = ''AWS::EC2::SubnetRouteTableAssociation''] = []"
proof -
  have "\<exists>resources. multiaz_subnets_with ec2_subnet example_lib ''web'' ''10.0.0.0/24'' ''eu-west-1'' None (Some ''vpc-1'') 4
       None (Some ''acl-1'') None None = Inr resources"
    using multiaz_subnets_with_raises [of ec2_subnet example_lib "''web''" "''10.0.0.0/24''"
          "''eu-west-1''" None "Some ''vpc-1''" 4 None "Some ''acl-1''" None None]
    by (simp add: example_split)
  then obtain resources where r:
    "multiaz_subnets example_lib ''web'' ''10.0.0.0/24'' ''eu-west-1'' None (Some ''vpc-1'') 4
       None (Some ''acl-1'') None None = Inr resources"
    unfolding multiaz_subnets_def by (rule exE)
  have "(multiaz_subnets :: unit pawslib \<Rightarrow> _, ec2_subnet) = (multiaz_subnets, ec2_subnet)
      \<or> (multiaz_subnets :: unit pawslib \<Rightarrow> _, ec2_subnet) = (init_multiaz_subnets, init_subnet)"
    by (rule disjI1) (rule refl)
  note t = multiaz_subnets_associations [where f = multiaz_subnets and mk = ec2_subnet
      and lib = example_lib, OF this r, unfolded example_split example_prefix]
  from t obtain net_split v where
    ns: "Inr [\<lparr>az = ''eu-west-1a'', cidr = ''10.0.0.0/26''\<rparr>,
          \<lparr>az = ''eu-west-1b'', cidr = ''10.0.0.64/26''\<rparr>,
          \<lparr>az = ''eu-west-1c'', cidr = ''10.0.0.128/26''\<rparr>] = (Inr net_split :: unit + net_segment list)"
    and v: "effective_id (Some ''vpc-1'') None = Some v"
    and body: "let prefix = ''Web'';
             subnet = (\<lambda>i. ec2_subnet ''web'' prefix v i (net_split ! i));
             acl = effective_id (Some ''acl-1'') None;
             rt = effective_id None None;
             n = length net_split
         in [r \<leftarrow> resources. rtype r = ''AWS::EC2::Subnet''] = map subnet [0..<n]
            \<and> (\<forall>i<n. title (subnet i) = prefix @ str_nat (i + 1))
            \<and> (\<forall>a. acl = Some a \<longrightarrow> (\<forall>i<n.
                  [r \<leftarrow> resources. title r = title (subnet i) @ ''NaclAssociation'']
                    = [nacl_association (subnet i) a]
                  \<and> rtype (nacl_association (subnet i) a)
                      = ''AWS::EC2::SubnetNetworkAclAssociation''
                  \<and> Properties (nacl_association (subnet i) a) ''SubnetId''
                      = Some (Ref (subnet i))
                  \<and> Properties (nacl_association (subnet i) a) ''NetworkAclId'' = Some a))
            \<and> (acl = None \<longrightarrow>
                  [r \<leftarrow> resources. rtype r = ''AWS::EC2::SubnetNetworkAclAssociation''] = [])
            \<and> (\<forall>a. rt = Some a \<longrightarrow> (\<forall>i<n.
                  [r \<leftarrow> resources. title r = title (subnet i) @ ''RouteAssociation'']
                    = [route_association (subnet i) a]
                  \<and> rtype (route_association (subnet i) a)
                      = ''AWS::EC2::SubnetRouteTableAssociation''
                  \<and> Properties (route_association (subnet i) a) ''SubnetId''
                      = Some (Ref (subnet i))
                  \<and> Properties (route_association (subnet i) a) ''RouteTableId'' = Some a))
            \<and> (rt = None \<longrightarrow>
                  [r \<leftarrow> resources. rtype r = ''AWS::EC2::SubnetRouteTableAssociation''] = [])
            \<and> (acl = None \<and> rt = None \<longrightarrow> resources = map subnet [0..<n])
            \<and> length resources
                = n * (1 + (if acl = None then 0 else 1) + (if rt = None then 0 else 1))"
    by (elim exE conjE)
  have v': "v = Str ''vpc-1''" using v by simp
  have ns': "net_split = [\<lparr>az = ''eu-west-1a'', cidr = ''10.0.0.0/26''\<rparr>,
          \<lparr>az = ''eu-west-1b'', cidr = ''10.0.0.64/26''\<rparr>,
          \<lparr>az = ''eu-west-1c'', cidr = ''10.0.0.128/26''\<rparr>]"
    using ns by simp
  have n3: "length net_split = 3" and n1: "net_split ! 1 = \<lparr>az = ''eu-west-1b'', cidr = ''10.0.0.64/26''\<rparr>"
    unfolding ns' by simp_all
  note b = body [unfolded Let_def n3 v', simplified effective_id_simps option.simps]
  have 1: "length resources = 6" using b by simp
  have 2: "[r \<leftarrow> resources. rtype r = ''AWS::EC2::SubnetRouteTableAssociation''] = []"
    using b by blast
  have "\<forall>i<3. [r \<leftarrow> resources. title r = title (ec2_subnet ''web'' ''Web'' (Str ''vpc-1'') i (net_split ! i)) @ ''NaclAssociation'']
                    = [nacl_association (ec2_subnet ''web'' ''Web'' (Str ''vpc-1'') i (net_split ! i)) (Str ''acl-1'')]"
    using b by blast
  from this [rule_format, of 1]
  have "[r \<leftarrow> resources. title r = title (ec2_subnet ''web'' ''Web'' (Str ''vpc-1'') 1 (net_split ! 1)) @ ''NaclAssociation'']
                    = [nacl_association (ec2_subnet ''web'' ''Web'' (Str ''vpc-1'') 1 (net_split ! 1)) (Str ''acl-1'')]"
    by simp
  then have 3: "[r \<leftarrow> resources. title r = ''Web2NaclAssociation'']
         = [nacl_association
              (ec2_subnet ''web'' ''Web'' (Str ''vpc-1'') 1
                 \<lparr>az = ''eu-west-1b'', cidr = ''10.0.0.64/26''\<rparr>) (Str ''acl-1'')]"
    unfolding n1 by simp
  from r 1 2 3 show ?thesis by blast
qed

lemma list_all2_concat_map:
  "(\<And>x. x \<in> set xs \<Longrightarrow> list_all2 R (f x) (g x))
     \<Longrightarrow> list_all2 R (concat (map f xs)) (concat (map g xs))"
  by (induction xs) (auto intro: list_all2_appendI)

lemma association_title_only:
  "title s = title s' \<Longrightarrow> nacl_association s a = nacl_association s' a"
  "title s = title s' \<Longrightarrow> route_association s a = route_association s' a"
  by (simp_all add: nacl_association_def route_association_def Ref_def)

lemma length_last_char: "length (last_char s) \<le> 1"
  by (simp add: last_char_def)

lemma name_tag_eq_iff [simp]: "(name_tag a = name_tag b) = (a = b)"
  by (simp add: name_tag_def)

lemma tag_value_differ [simp]: "str_nat k @ CHR ''('' # u @ '')'' \<noteq> u"
proof
  assume "str_nat k @ CHR ''('' # u @ '')'' = u"
  then have "length (str_nat k @ CHR ''('' # u @ '')'') = length u" by simp
  then show False by simp
qed

lemma subnets_same_shape:
  "same_shape (init_subnet name_prefix prefix v i seg) (ec2_subnet name_prefix prefix v i seg)"
  by (simp add: same_shape_def)

lemma blocks_same_shape:
  "list_all2 same_shape
     (blocks (\<lambda>i. init_subnet name_prefix prefix v i (net_split ! i)) acl rt n)
     (blocks (\<lambda>i. ec2_subnet name_prefix prefix v i (net_split ! i)) acl rt n)"
  unfolding blocks_def
proof (rule list_all2_concat_map)
  fix i
  have a: "\<And>x. same_shape
      (nacl_association (init_subnet name_prefix prefix v i (net_split ! i)) x)
      (nacl_association (ec2_subnet name_prefix prefix v i (net_split ! i)) x)"
    using association_title_only(1)
      [of "init_subnet name_prefix prefix v i (net_split ! i)"
          "ec2_subnet name_prefix prefix v i (net_split ! i)"]
    by (simp add: same_shape_def)
  have b: "\<And>x. same_shape
      (route_association (init_subnet name_prefix prefix v i (net_split ! i)) x)
      (route_association (ec2_subnet name_prefix prefix v i (net_split ! i)) x)"
    using association_title_only(2)
      [of "init_subnet name_prefix prefix v i (net_split ! i)"
          "ec2_subnet name_prefix prefix v i (net_split ! i)"]
    by (simp add: same_shape_def)
  show "list_all2 same_shape
          (init_subnet name_prefix prefix v i (net_split ! i) #
           (case acl of None \<Rightarrow> []
            | Some a \<Rightarrow> [nacl_association (init_subnet name_prefix prefix v i (net_split ! i)) a]) @
           (case rt of None \<Rightarrow> []
            | Some a \<Rightarrow> [route_association (init_subnet name_prefix prefix v i (net_split ! i)) a]))
          (ec2_subnet name_prefix prefix v i (net_split ! i) #
           (case acl of None \<Rightarrow> []
            | Some a \<Rightarrow> [nacl_association (ec2_subnet name_prefix prefix v i (net_split ! i)) a]) @
           (case rt of None \<Rightarrow> []
            | Some a \<Rightarrow> [route_association (ec2_subnet name_prefix prefix v i (net_split ! i)) a]))"
    by (cases acl; cases rt) (simp_all add: subnets_same_shape a b)
qed

text \<open>
  C8.  When both definitions of \<^verbatim>\<open>multiaz_subnets\<close> succeed on the same arguments, their
  lists have the same length, the same titles and the same resource types in the same
  order; corresponding subnets agree on \<^verbatim>\<open>AvailabilityZone\<close>, \<^verbatim>\<open>CidrBlock\<close> and
  \<^verbatim>\<open>VpcId\<close>, differ in their tags, and only the one from \<^verbatim>\<open>ec2.py\<close> has metadata; the
  associations are equal.
\<close>

theorem multiaz_subnets_definitions_agree:
  assumes "init_multiaz_subnets lib name_prefix cidr_block region vpc vpc_id no_of_subnets
             network_acl network_acl_id route_table route_table_id = Inr rs1"
    and "multiaz_subnets lib name_prefix cidr_block region vpc vpc_id no_of_subnets
             network_acl network_acl_id route_table route_table_id = Inr rs2"
  shows "length rs1 = length rs2
     \<and> map title rs1 = map title rs2
     \<and> map rtype rs1 = map rtype rs2
     \<and> (\<forall>i<length rs1.
          if rtype (rs1 ! i) = ''AWS::EC2::Subnet''
          then Properties (rs1 ! i) ''AvailabilityZone'' = Properties (rs2 ! i) ''AvailabilityZone''
               \<and> Properties (rs1 ! i) ''CidrBlock'' = Properties (rs2 ! i) ''CidrBlock''
               \<and> Properties (rs1 ! i) ''VpcId'' = Properties (rs2 ! i) ''VpcId''
               \<and> Properties (rs1 ! i) ''Tags'' \<noteq> Properties (rs2 ! i) ''Tags''
               \<and> Metadata (rs1 ! i) = None \<and> Metadata (rs2 ! i) \<noteq> None
          else rs1 ! i = rs2 ! i)"
proof -
  from multiaz_subnets_with_blocks [OF assms(1) [unfolded init_multiaz_subnets_def]]
  obtain net_split v where
    s1: "split_net_across_zones lib cidr_block region no_of_subnets = Inr net_split"
    and v1: "effective_id vpc_id vpc = Some v"
    and r1: "rs1 = blocks (\<lambda>i. init_subnet name_prefix
               (capitalize (str_lower (alphanum lib name_prefix))) v i (net_split ! i))
             (effective_id network_acl_id network_acl)
             (effective_id route_table_id route_table) (length net_split)"
    by blast
  from multiaz_subnets_with_blocks [OF assms(2) [unfolded multiaz_subnets_def]]
  obtain net_split' v' where
    s2: "split_net_across_zones lib cidr_block region no_of_subnets = Inr net_split'"
    and v2: "effective_id vpc_id vpc = Some v'"
    and r2': "rs2 = blocks (\<lambda>i. ec2_subnet name_prefix
               (capitalize (str_lower (alphanum lib name_prefix))) v' i (net_split' ! i))
             (effective_id network_acl_id network_acl)
             (effective_id route_table_id route_table) (length net_split')"
    by blast
  have "net_split' = net_split" using s1 s2 by simp
  moreover have "v' = v" using v1 v2 by simp
  ultimately have r2: "rs2 = blocks (\<lambda>i. ec2_subnet name_prefix
               (capitalize (str_lower (alphanum lib name_prefix))) v i (net_split ! i))
             (effective_id network_acl_id network_acl)
             (effective_id route_table_id route_table) (length net_split)"
    using r2' by simp
  have all: "list_all2 same_shape rs1 rs2"
    unfolding r1 r2 by (rule blocks_same_shape)
  then have len: "length rs1 = length rs2" by (rule list_all2_lengthD)
  have nth: "\<And>i. i < length rs1 \<Longrightarrow> same_shape (rs1 ! i) (rs2 ! i)"
    using all by (rule list_all2_nthD)
  have t: "map title rs1 = map title rs2"
    using len nth by (intro nth_equalityI) (simp_all add: same_shape_def)
  have ty: "map rtype rs1 = map rtype rs2"
    using len nth by (intro nth_equalityI) (simp_all add: same_shape_def)
  have p: "\<forall>i<length rs1.
          if rtype (rs1 ! i) = ''AWS::EC2::Subnet''
          then Properties (rs1 ! i) ''AvailabilityZone'' = Properties (rs2 ! i) ''AvailabilityZone''
               \<and> Properties (rs1 ! i) ''CidrBlock'' = Properties (rs2 ! i) ''CidrBlock''
               \<and> Properties (rs1 ! i) ''VpcId'' = Properties (rs2 ! i) ''VpcId''
               \<and> Properties (rs1 ! i) ''Tags'' \<noteq> Properties (rs2 ! i) ''Tags''
               \<and> Metadata (rs1 ! i) = None \<and> Metadata (rs2 ! i) \<noteq> None
          else rs1 ! i = rs2 ! i"
    using nth unfolding same_shape_def by blast
  from len t ty p show ?thesis by (intro conjI)
qed

theorem multiaz_subnets_definitions_agree_witness:
  "\<exists>rs1 rs2.
     init_multiaz_subnets example_lib ''web'' ''10.0.0.0/24'' ''eu-west-1'' None (Some ''vpc-1'') 4
       None (Some ''acl-1'') None None = Inr rs1
     \<and> multiaz_subnets example_lib ''web'' ''10.0.0.0/24'' ''eu-west-1'' None (Some ''vpc-1'') 4
       None (Some ''acl-1'') None None = Inr rs2
     \<and> length rs1 = length rs2 \<and> map title rs1 = map title rs2 \<and> map rtype rs1 = map rtype rs2"
proof -
  have "\<exists>resources. multiaz_subnets_with init_subnet example_lib ''web'' ''10.0.0.0/24''
       ''eu-west-1'' None (Some ''vpc-1'') 4 None (Some ''acl-1'') None None = Inr resources"
    using multiaz_subnets_with_raises [of init_subnet example_lib "''web''" "''10.0.0.0/24''"
          "''eu-west-1''" None "Some ''vpc-1''" 4 None "Some ''acl-1''" None None]
    by (simp add: example_split)
  then obtain rs1 where r1:
    "init_multiaz_subnets example_lib ''web'' ''10.0.0.0/24'' ''eu-west-1'' None (Some ''vpc-1'') 4
       None (Some ''acl-1'') None None = Inr rs1"
    unfolding init_multiaz_subnets_def by (rule exE)
  have "\<exists>resources. multiaz_subnets_with ec2_subnet example_lib ''web'' ''10.0.0.0/24''
       ''eu-west-1'' None (Some ''vpc-1'') 4 None (Some ''acl-1'') None None = Inr resources"
    using multiaz_subnets_with_raises [of ec2_subnet example_lib "''web''" "''10.0.0.0/24''"
          "''eu-west-1''" None "Some ''vpc-1''" 4 None "Some ''acl-1''" None None]
    by (simp add: example_split)
  then obtain rs2 where r2:
    "multiaz_subnets example_lib ''web'' ''10.0.0.0/24'' ''eu-west-1'' None (Some ''vpc-1'') 4
       None (Some ''acl-1'') None None = Inr rs2"
    unfolding multiaz_subnets_def by (rule exE)
  from multiaz_subnets_definitions_agree [OF r1 r2] r1 r2 show ?thesis by blast
qed

section \<open>The subnet groups of the VPC template\<close>

lemma apply_writes_simps [simp]:
  "apply_writes m [] = m"
  "apply_writes m ((k, v) # ws) = apply_writes (m(k \<mapsto> v)) ws"
  "apply_writes m (ws @ ws') = apply_writes (apply_writes m ws) ws'"
  by (simp_all add: apply_writes_def)

lemma apply_writes_last:
  assumes "(k, v) \<in> set ws" and "\<And>v'. (k, v') \<in> set ws \<Longrightarrow> v' = v"
  shows "apply_writes m ws k = Some v"
  using assms
proof (induction ws rule: rev_induct)
  case Nil
  then show ?case by simp
next
  case (snoc kv ws)
  obtain k' v' where kv: "kv = (k', v')" by (cases kv)
  show ?case
  proof (cases "k' = k")
    case True
    then have "v' = v" using snoc.prems(2) [of v'] kv by simp
    then show ?thesis using True kv by simp
  next
    case False
    then have "(k, v) \<in> set ws" using snoc.prems(1) kv by auto
    moreover have "\<And>v'. (k, v') \<in> set ws \<Longrightarrow> v' = v" using snoc.prems(2) by auto
    ultimately have "apply_writes m ws k = Some v" by (rule snoc.IH)
    then show ?thesis using False kv by simp
  qed
qed

lemma apply_writes_other:
  "k \<notin> fst ` set ws \<Longrightarrow> apply_writes m ws k = m k"
  by (induction ws arbitrary: m) auto

lemma find_route_table_eq:
  assumes "\<forall>rt \<in> set tables. Metadata rt \<noteq> None" and "Metadata subnet \<noteq> None"
  shows "find_route_table tables subnet = Inr (first_table tables (metadata_az subnet))"
  using assms(1)
proof (induction tables)
  case Nil
  show ?case by (simp add: first_table_def)
next
  case (Cons rt rest)
  obtain rmd where r: "Metadata rt = Some rmd" using Cons.prems by auto
  obtain smd where s: "Metadata subnet = Some smd" using assms(2) by auto
  show ?case using Cons r s by (simp add: first_table_def metadata_az_def)
qed

lemma natted_writes_other:
  "rtype res \<noteq> ''AWS::EC2::Subnet'' \<Longrightarrow> natted_writes tables res = [(title res, res)]"
  by (simp add: natted_writes_def)

lemma natted_writes_subnet:
  "rtype res = ''AWS::EC2::Subnet'' \<Longrightarrow> first_table tables (metadata_az res) = Some route_table
     \<Longrightarrow> natted_writes tables res
         = [(title res, res),
            (title res @ ''RouteAssociation'', route_association res (Ref route_table))]"
  by (simp add: natted_writes_def)

lemma natted_loop_ok:
  assumes "\<forall>rt \<in> set (v_natted_route_tables self). Metadata rt \<noteq> None"
    and "\<forall>res \<in> set rs. rtype res = ''AWS::EC2::Subnet'' \<longrightarrow>
           Metadata res \<noteq> None
           \<and> first_table (v_natted_route_tables self) (metadata_az res) \<noteq> None"
  shows "natted_subnets_loop rs self
     = (None :: 'e error option, self\<lparr>v_r := apply_writes (v_r self)
                  (concat (map (natted_writes (v_natted_route_tables self)) rs))\<rparr>)"
  using assms
proof (induction rs arbitrary: self)
  case Nil
  show ?case by simp
next
  case (Cons res rest)
  define self1 where "self1 = self\<lparr>v_r := (v_r self)(title res \<mapsto> res)\<rparr>"
  have t1: "v_natted_route_tables self1 = v_natted_route_tables self"
    by (simp add: self1_def)
  show ?case
  proof (cases "rtype res = ''AWS::EC2::Subnet''")
    case False
    have "natted_subnets_loop rest self1
      = (None :: 'e error option, self1\<lparr>v_r := apply_writes (v_r self1)
                  (concat (map (natted_writes (v_natted_route_tables self1)) rest))\<rparr>)"
      by (rule Cons.IH) (use Cons.prems in \<open>simp_all add: t1\<close>)
    then show ?thesis using False
      by (simp add: Let_def self1_def natted_writes_other)
  next
    case True
    then have m: "Metadata res \<noteq> None"
      and f: "first_table (v_natted_route_tables self) (metadata_az res) \<noteq> None"
      using Cons.prems(2) by simp_all
    then obtain route_table where
      rt: "first_table (v_natted_route_tables self) (metadata_az res) = Some route_table"
      by auto
    have fr: "find_route_table (v_natted_route_tables self1) res = (Inr (Some route_table) :: 'e error + resource option)"
      using find_route_table_eq [OF _ m, of "v_natted_route_tables self"] Cons.prems(1) rt t1
      by simp
    define self2 where "self2 = self1\<lparr>v_r := (v_r self1)(title res @ ''RouteAssociation'' \<mapsto>
                              route_association res (Ref route_table))\<rparr>"
    have t2: "v_natted_route_tables self2 = v_natted_route_tables self"
      by (simp add: self2_def self1_def)
    have "natted_subnets_loop rest self2
      = (None :: 'e error option, self2\<lparr>v_r := apply_writes (v_r self2)
                  (concat (map (natted_writes (v_natted_route_tables self2)) rest))\<rparr>)"
      by (rule Cons.IH) (use Cons.prems in \<open>simp_all add: t2\<close>)
    moreover have "natted_subnets_loop (res # rest) self = (natted_subnets_loop rest self2 :: 'e error option \<times> VpcTemplate)"
      using True fr by (simp add: Let_def self1_def [symmetric] self2_def)
    ultimately show ?thesis using True rt
      by (simp add: t2 self2_def self1_def natted_writes_subnet)
  qed
qed

lemma natted_loop_append:
  "natted_subnets_loop (pre @ rest) self
     = (case natted_subnets_loop pre self of
          (None, self') \<Rightarrow> natted_subnets_loop rest self'
        | (Some e, self') \<Rightarrow> (Some e, self'))"
proof (induction pre arbitrary: self)
  case Nil
  show ?case by simp
next
  case (Cons res pre)
  show ?case
    by (simp add: Let_def Cons.IH split: sum.splits option.splits)
qed

lemma natted_loop_fail:
  assumes "\<forall>rt \<in> set (v_natted_route_tables self). Metadata rt \<noteq> None"
    and "\<forall>res \<in> set pre. rtype res = ''AWS::EC2::Subnet'' \<longrightarrow>
           Metadata res \<noteq> None
           \<and> first_table (v_natted_route_tables self) (metadata_az res) \<noteq> None"
    and "rtype res = ''AWS::EC2::Subnet''" and "Metadata res = Some smd"
    and "first_table (v_natted_route_tables self) (metadata_az res) = None"
  shows "fst (natted_subnets_loop (pre @ res # post) self)
     = Some (NotImplementedError (''Can't find NAT gateway in '' @ m_az smd) :: 'e error)"
proof -
  define self1 where "self1 = self\<lparr>v_r := apply_writes (v_r self)
                  (concat (map (natted_writes (v_natted_route_tables self)) pre))\<rparr>"
  have pre: "natted_subnets_loop pre self = (None :: 'e error option, self1)"
    unfolding self1_def using assms(1,2) by (rule natted_loop_ok)
  have t: "v_natted_route_tables (self1\<lparr>v_r := (v_r self1)(title res \<mapsto> res)\<rparr>)
      = v_natted_route_tables self"
    by (simp add: self1_def)
  have "find_route_table (v_natted_route_tables (self1\<lparr>v_r := (v_r self1)(title res \<mapsto> res)\<rparr>)) res
      = (Inr None :: 'e error + resource option)"
    unfolding t using find_route_table_eq [of "v_natted_route_tables self" res] assms(1,4,5)
    by simp
  then have "fst (natted_subnets_loop (res # post) self1)
      = Some (NotImplementedError (''Can't find NAT gateway in '' @ m_az smd) :: 'e error)"
    using assms(3,4) by (simp add: Let_def)
  then show ?thesis by (simp add: natted_loop_append pre)
qed

lemma set_blocks:
  "set (blocks sub acl rt n)
     = (\<Union>i\<in>{..<n}. {sub i}
          \<union> (case acl of None \<Rightarrow> {} | Some a \<Rightarrow> {nacl_association (sub i) a})
          \<union> (case rt of None \<Rightarrow> {} | Some a \<Rightarrow> {route_association (sub i) a}))"
  by (cases acl; cases rt) (auto simp: blocks_def)

lemma blocks_split:
  assumes "k < n"
  shows "blocks sub acl rt n
     = blocks sub acl rt k
       @ sub k # ((case acl of None \<Rightarrow> [] | Some a \<Rightarrow> [nacl_association (sub k) a])
                  @ (case rt of None \<Rightarrow> [] | Some a \<Rightarrow> [route_association (sub k) a])
                  @ concat (map (\<lambda>i. sub i
                       # (case acl of None \<Rightarrow> [] | Some a \<Rightarrow> [nacl_association (sub i) a])
                       @ (case rt of None \<Rightarrow> [] | Some a \<Rightarrow> [route_association (sub i) a]))
                     [Suc k..<n]))"
proof -
  have "[0..<n] = [0..<k] @ k # [Suc k..<n]"
    using assms by (metis less_imp_add_positive upt_add_eq_append upt_conv_Cons zero_le le_add1 add.commute)
  then show ?thesis by (simp add: blocks_def)
qed

lemma multiaz_subnets_blocks:
  "multiaz_subnets lib name_prefix cidr_block region (Some vpc) None no_of_subnets
       network_acl None route_table None
     = (case split_net_across_zones lib cidr_block region no_of_subnets of
          Inl e \<Rightarrow> Inl (Propagated e)
        | Inr net_split \<Rightarrow>
            Inr (blocks (\<lambda>i. ec2_subnet name_prefix
                   (capitalize (str_lower (alphanum lib name_prefix))) (Ref vpc) i (net_split ! i))
                 (map_option Ref network_acl) (map_option Ref route_table) (length net_split)))"
  unfolding multiaz_subnets_def multiaz_subnets_with_eq
  by (simp add: blocks_def enumerate_nth subnet_block_def comp_def split: sum.splits)

lemma metadata_az_ec2_subnet [simp]:
  "metadata_az (ec2_subnet name_prefix prefix v i seg) = Some (str_lower (az seg))"
  by (simp add: metadata_az_def)

lemma metadata_az_assoc [simp]:
  "metadata_az (nacl_association s a) = None" "metadata_az (route_association s a) = None"
  by (simp_all add: metadata_az_def)

lemma first_table_None: "first_table tables zone = None \<longleftrightarrow> (\<forall>rt \<in> set tables. metadata_az rt \<noteq> zone)"
  by (auto simp: first_table_def find_None_iff)

lemma first_table_Some:
  "first_table tables zone = Some rt \<Longrightarrow> rt \<in> set tables \<and> metadata_az rt = zone"
  by (auto simp: first_table_def find_Some_iff)

text \<open>The final dictionary after the loop over the subnets and their ACL associations.\<close>

lemma natted_writes_lookup:
  assumes st: "\<And>i. title (sub i) = p @ str_nat (i + 1)"
    and sr: "\<And>i. rtype (sub i) = ''AWS::EC2::Subnet''"
    and tb: "\<And>i. i < n \<Longrightarrow> first_table tables (metadata_az (sub i)) = Some (tab i)"
    and i: "i < n"
  shows "apply_writes m (concat (map (natted_writes tables) (blocks sub (Some a) None n)))
           (title (sub i) @ ''RouteAssociation'')
         = Some (route_association (sub i) (Ref (tab i)))"
    and "apply_writes m (concat (map (natted_writes tables) (blocks sub (Some a) None n)))
           (title (sub i)) = Some (sub i)"
proof -
  let ?ws = "concat (map (natted_writes tables) (blocks sub (Some a) None n))"
  have ws: "set ?ws = (\<Union>j\<in>{..<n}.
      {(title (sub j), sub j),
       (title (sub j) @ ''RouteAssociation'', route_association (sub j) (Ref (tab j))),
       (title (sub j) @ ''NaclAssociation'', nacl_association (sub j) a)})"
    by (auto simp: set_blocks natted_writes_other natted_writes_subnet sr tb)
  show "apply_writes m ?ws (title (sub i) @ ''RouteAssociation'')
         = Some (route_association (sub i) (Ref (tab i)))"
  proof (rule apply_writes_last)
    show "(title (sub i) @ ''RouteAssociation'', route_association (sub i) (Ref (tab i))) \<in> set ?ws"
      unfolding ws using i by blast
    fix v' assume "(title (sub i) @ ''RouteAssociation'', v') \<in> set ?ws"
    then show "v' = route_association (sub i) (Ref (tab i))"
      unfolding ws by (auto simp: st title_eqs)
  qed
  show "apply_writes m ?ws (title (sub i)) = Some (sub i)"
  proof (rule apply_writes_last)
    show "(title (sub i), sub i) \<in> set ?ws"
      unfolding ws using i by blast
    fix v' assume "(title (sub i), v') \<in> set ?ws"
    then show "v' = sub i"
      unfolding ws by (auto simp: st title_eqs)
  qed
qed

text \<open>
  C5.  Let every natted route table carry metadata, as the tables appended by
  \<^verbatim>\<open>add_public_subnet_group\<close> do, and let the splitting helper return \<open>net_split\<close>.  Then
  \<^verbatim>\<open>add_natted_subnet_group\<close> returns normally exactly when every created subnet has a
  natted route table whose \<^verbatim>\<open>Metadata["az"]\<close> equals the subnet's; it then has stored, under
  \<^verbatim>\<open><subnet title>RouteAssociation\<close>, a \<^verbatim>\<open>SubnetRouteTableAssociation\<close> of the subnet with
  the first such table.  Otherwise it raises \<^verbatim>\<open>NotImplementedError\<close>, naming the zone of the
  first subnet without a matching table.
\<close>

theorem add_natted_subnet_group_associations:
  assumes inv: "\<forall>route_table \<in> set (v_natted_route_tables self). Metadata route_table \<noteq> None"
    and split: "split_net_across_zones lib cidr_block (v_region self) 4 = Inr net_split"
  shows
  "let prefix = capitalize (str_lower (alphanum lib name_prefix));
       subnet = (\<lambda>i. ec2_subnet name_prefix prefix (Ref (v_vpc self)) i (net_split ! i));
       zone = (\<lambda>i. str_lower (az (net_split ! i)));
       tables = v_natted_route_tables self;
       n = length net_split;
       result = add_natted_subnet_group lib cidr_block name_prefix no_of_subnets self
   in (\<forall>i<n. metadata_az (subnet i) = Some (zone i))
      \<and> (fst result = None
           \<longleftrightarrow> (\<forall>i<n. \<exists>route_table \<in> set tables. metadata_az route_table = Some (zone i)))
      \<and> (\<forall>k<n. (\<forall>route_table \<in> set tables. metadata_az route_table \<noteq> Some (zone k))
               \<and> (\<forall>j<k. \<exists>route_table \<in> set tables. metadata_az route_table = Some (zone j))
             \<longrightarrow> fst result
                   = Some (NotImplementedError (''Can't find NAT gateway in '' @ zone k)))
      \<and> (fst result = None \<longrightarrow>
            v_natted_route_tables (snd result) = tables
            \<and> (\<forall>i<n. \<exists>route_table \<in> set tables.
                  metadata_az route_table = metadata_az (subnet i)
                  \<and> first_table tables (Some (zone i)) = Some route_table
                  \<and> v_r (snd result) (title (subnet i)) = Some (subnet i)
                  \<and> v_r (snd result) (title (subnet i) @ ''RouteAssociation'')
                      = Some (route_association (subnet i) (Ref route_table))
                  \<and> rtype (route_association (subnet i) (Ref route_table))
                      = ''AWS::EC2::SubnetRouteTableAssociation''
                  \<and> Properties (route_association (subnet i) (Ref route_table)) ''SubnetId''
                      = Some (Ref (subnet i))
                  \<and> Properties (route_association (subnet i) (Ref route_table)) ''RouteTableId''
                      = Some (Ref route_table)))"
proof -
  define prefix where "prefix = capitalize (str_lower (alphanum lib name_prefix))"
  define subnet where
    "subnet = (\<lambda>i. ec2_subnet name_prefix prefix (Ref (v_vpc self)) i (net_split ! i))"
  define zone where "zone = (\<lambda>i. str_lower (az (net_split ! i)))"
  define tables where "tables = v_natted_route_tables self"
  define n where "n = length net_split"
  define acl where "acl = Ref (v_internal_nacl self)"
  define resources where "resources = blocks subnet (Some acl) None n"
  define result :: "'a error option \<times> VpcTemplate" where
    "result = add_natted_subnet_group lib cidr_block name_prefix no_of_subnets self"
  have st: "\<And>i. title (subnet i) = prefix @ str_nat (i + 1)"
    and sr: "\<And>i. rtype (subnet i) = ''AWS::EC2::Subnet''"
    and sz: "\<And>i. metadata_az (subnet i) = Some (zone i)"
    and sm: "\<And>i. Metadata (subnet i) \<noteq> None"
    by (simp_all add: subnet_def zone_def)
  have res: "result = natted_subnets_loop resources self"
    unfolding result_def add_natted_subnet_group_def multiaz_subnets_blocks split
    by (simp add: resources_def subnet_def prefix_def acl_def n_def)
  have subnets_only: "\<And>res. res \<in> set resources \<Longrightarrow> rtype res = ''AWS::EC2::Subnet''
      \<Longrightarrow> \<exists>i<n. res = subnet i"
    unfolding resources_def set_blocks by auto
  have inv': "\<forall>rt \<in> set (v_natted_route_tables self). Metadata rt \<noteq> None"
    using inv .
  \<comment> \<open>every zone has a table: the call succeeds\<close>
  have ok: "fst result = None
      \<and> v_natted_route_tables (snd result) = tables
      \<and> (\<forall>i<n. \<exists>route_table \<in> set tables.
                  metadata_az route_table = metadata_az (subnet i)
                  \<and> first_table tables (Some (zone i)) = Some route_table
                  \<and> v_r (snd result) (title (subnet i)) = Some (subnet i)
                  \<and> v_r (snd result) (title (subnet i) @ ''RouteAssociation'')
                      = Some (route_association (subnet i) (Ref route_table))
                  \<and> rtype (route_association (subnet i) (Ref route_table))
                      = ''AWS::EC2::SubnetRouteTableAssociation''
                  \<and> Properties (route_association (subnet i) (Ref route_table)) ''SubnetId''
                      = Some (Ref (subnet i))
                  \<and> Properties (route_association (subnet i) (Ref route_table)) ''RouteTableId''
                      = Some (Ref route_table))"
    if all: "\<forall>i<n. \<exists>route_table \<in> set tables. metadata_az route_table = Some (zone i)"
  proof -
    have ex: "\<And>i. i < n \<Longrightarrow> first_table tables (metadata_az (subnet i)) \<noteq> None"
      using all by (auto simp: first_table_None sz)
    define tab where "tab = (\<lambda>i. the (first_table tables (metadata_az (subnet i))))"
    have tb: "\<And>i. i < n \<Longrightarrow> first_table tables (metadata_az (subnet i)) = Some (tab i)"
      using ex by (auto simp: tab_def)
    have pre: "\<forall>res \<in> set resources. rtype res = ''AWS::EC2::Subnet'' \<longrightarrow>
           Metadata res \<noteq> None
           \<and> first_table (v_natted_route_tables self) (metadata_az res) \<noteq> None"
      using subnets_only ex sm unfolding tables_def by blast
    have r: "result = (None, self\<lparr>v_r := apply_writes (v_r self)
                  (concat (map (natted_writes tables) resources))\<rparr>)"
      unfolding res tables_def using inv' pre by (rule natted_loop_ok)
    have "\<exists>route_table \<in> set tables.
                  metadata_az route_table = metadata_az (subnet i)
                  \<and> first_table tables (Some (zone i)) = Some route_table
                  \<and> v_r (snd result) (title (subnet i)) = Some (subnet i)
                  \<and> v_r (snd result) (title (subnet i) @ ''RouteAssociation'')
                      = Some (route_association (subnet i) (Ref route_table))
                  \<and> rtype (route_association (subnet i) (Ref route_table))
                      = ''AWS::EC2::SubnetRouteTableAssociation''
                  \<and> Properties (route_association (subnet i) (Ref route_table)) ''SubnetId''
                      = Some (Ref (subnet i))
                  \<and> Properties (route_association (subnet i) (Ref route_table)) ''RouteTableId''
                      = Some (Ref route_table)"
      if i: "i < n" for i
    proof -
      have a: "tab i \<in> set tables \<and> metadata_az (tab i) = metadata_az (subnet i)"
        using first_table_Some [OF tb [OF i]] .
      have b: "first_table tables (Some (zone i)) = Some (tab i)"
        using tb [OF i] by (simp add: sz)
      have c: "v_r (snd result) (title (subnet i)) = Some (subnet i)"
        unfolding r resources_def using natted_writes_lookup(2) [of subnet prefix n tables tab i, OF st sr tb i]
        by simp
      have d: "v_r (snd result) (title (subnet i) @ ''RouteAssociation'')
                      = Some (route_association (subnet i) (Ref (tab i)))"
        unfolding r resources_def using natted_writes_lookup(1) [of subnet prefix n tables tab i, OF st sr tb i]
        by simp
      have e: "rtype (route_association (subnet i) (Ref (tab i)))
                      = ''AWS::EC2::SubnetRouteTableAssociation''
          \<and> Properties (route_association (subnet i) (Ref (tab i))) ''SubnetId''
                      = Some (Ref (subnet i))
          \<and> Properties (route_association (subnet i) (Ref (tab i))) ''RouteTableId''
                      = Some (Ref (tab i))"
        by simp
      from a b c d e show ?thesis by blast
    qed
    moreover have "fst result = None" by (simp add: r)
    moreover have "v_natted_route_tables (snd result) = tables" by (simp add: r tables_def)
    ultimately show ?thesis by blast
  qed
  \<comment> \<open>the first zone without a table: the call raises\<close>
  have fail: "fst result = Some (NotImplementedError (''Can't find NAT gateway in '' @ zone k))"
    if k: "k < n"
      and none: "\<forall>route_table \<in> set tables. metadata_az route_table \<noteq> Some (zone k)"
      and before: "\<forall>j<k. \<exists>route_table \<in> set tables. metadata_az route_table = Some (zone j)"
    for k
  proof -
    obtain post where sp: "resources = blocks subnet (Some acl) None k @ subnet k # post"
      unfolding resources_def using blocks_split [OF k, of subnet "Some acl" None] by simp
    have pre: "\<forall>res \<in> set (blocks subnet (Some acl) None k). rtype res = ''AWS::EC2::Subnet'' \<longrightarrow>
           Metadata res \<noteq> None
           \<and> first_table (v_natted_route_tables self) (metadata_az res) \<noteq> None"
      unfolding set_blocks using before sm
      by (auto simp: first_table_None sz tables_def)
    obtain smd where smd: "Metadata (subnet k) = Some smd" using sm [of k] by auto
    have z: "m_az smd = zone k" using sz [of k] smd by (simp add: metadata_az_def)
    have fn: "first_table (v_natted_route_tables self) (metadata_az (subnet k)) = None"
      using none by (simp add: first_table_None sz tables_def)
    show ?thesis
      unfolding res sp z [symmetric]
      using inv' pre sr smd fn by (rule natted_loop_fail)
  qed
  have iff: "fst result = None
      \<longleftrightarrow> (\<forall>i<n. \<exists>route_table \<in> set tables. metadata_az route_table = Some (zone i))"
  proof
    assume "\<forall>i<n. \<exists>route_table \<in> set tables. metadata_az route_table = Some (zone i)"
    then show "fst result = None" using ok by blast
  next
    assume s: "fst result = None"
    show "\<forall>i<n. \<exists>route_table \<in> set tables. metadata_az route_table = Some (zone i)"
    proof (rule ccontr)
      assume "\<not> (\<forall>i<n. \<exists>route_table \<in> set tables. metadata_az route_table = Some (zone i))"
      then have e: "\<exists>i. i < n \<and> (\<forall>route_table \<in> set tables. metadata_az route_table \<noteq> Some (zone i))"
        by blast
      define k where "k = (LEAST i. i < n \<and> (\<forall>route_table \<in> set tables. metadata_az route_table \<noteq> Some (zone i)))"
      have k: "k < n \<and> (\<forall>route_table \<in> set tables. metadata_az route_table \<noteq> Some (zone k))"
        unfolding k_def using e by (rule LeastI_ex)
      have "\<forall>j<k. \<exists>route_table \<in> set tables. metadata_az route_table = Some (zone j)"
      proof (intro allI impI)
        fix j assume j: "j < k"
        then have "\<not> (j < n \<and> (\<forall>route_table \<in> set tables. metadata_az route_table \<noteq> Some (zone j)))"
          unfolding k_def by (rule not_less_Least)
        moreover have "j < n" using j k by simp
        ultimately show "\<exists>route_table \<in> set tables. metadata_az route_table = Some (zone j)" by blast
      qed
      with k fail [of k] have "fst result \<noteq> None" by simp
      with s show False by simp
    qed
  qed
  have c3: "\<forall>k<n. (\<forall>route_table \<in> set tables. metadata_az route_table \<noteq> Some (zone k))
               \<and> (\<forall>j<k. \<exists>route_table \<in> set tables. metadata_az route_table = Some (zone j))
             \<longrightarrow> fst result
                   = Some (NotImplementedError (''Can't find NAT gateway in '' @ zone k))"
    using fail by blast
  have c4: "fst result = None \<longrightarrow>
            v_natted_route_tables (snd result) = tables
            \<and> (\<forall>i<n. \<exists>route_table \<in> set tables.
                  metadata_az route_table = metadata_az (subnet i)
                  \<and> first_table tables (Some (zone i)) = Some route_table
                  \<and> v_r (snd result) (title (subnet i)) = Some (subnet i)
                  \<and> v_r (snd result) (title (subnet i) @ ''RouteAssociation'')
                      = Some (route_association (subnet i) (Ref route_table))
                  \<and> rtype (route_association (subnet i) (Ref route_table))
                      = ''AWS::EC2::SubnetRouteTableAssociation''
                  \<and> Properties (route_association (subnet i) (Ref route_table)) ''SubnetId''
                      = Some (Ref (subnet i))
                  \<and> Properties (route_association (subnet i) (Ref route_table)) ''RouteTableId''
                      = Some (Ref route_table))"
  proof
    assume "fst result = None"
    then have "\<forall>i<n. \<exists>route_table \<in> set tables. metadata_az route_table = Some (zone i)"
      using iff by simp
    from ok [OF this] show "v_natted_route_tables (snd result) = tables
            \<and> (\<forall>i<n. \<exists>route_table \<in> set tables.
                  metadata_az route_table = metadata_az (subnet i)
                  \<and> first_table tables (Some (zone i)) = Some route_table
                  \<and> v_r (snd result) (title (subnet i)) = Some (subnet i)
                  \<and> v_r (snd result) (title (subnet i) @ ''RouteAssociation'')
                      = Some (route_association (subnet i) (Ref route_table))
                  \<and> rtype (route_association (subnet i) (Ref route_table))
                      = ''AWS::EC2::SubnetRouteTableAssociation''
                  \<and> Properties (route_association (subnet i) (Ref route_table)) ''SubnetId''
                      = Some (Ref (subnet i))
                  \<and> Properties (route_association (subnet i) (Ref route_table)) ''RouteTableId''
                      = Some (Ref route_table))"
      by (rule conjunct2)
  qed
  have c1: "\<forall>i<n. metadata_az (subnet i) = Some (zone i)" using sz by simp
  note final = conjI [OF c1 conjI [OF iff conjI [OF c3 c4]]]
  show ?thesis
    unfolding Let_def
    using final [unfolded result_def n_def tables_def zone_def subnet_def prefix_def] .
qed

lemma str_lower_no_upper: "c \<in> set (str_lower s) \<Longrightarrow> \<not> is_upper c"
  by (auto simp: str_lower_def lower_char_not_upper)

lemma str_nat_no_upper: "c \<in> set (str_nat n) \<Longrightarrow> \<not> is_upper c"
  using str_nat_digits digit_not_upper by blast

lemma capitalized_no_inner_upper:
  "\<not> inner_upper (capitalize (str_lower x) @ str_nat a)"
proof (cases x)
  case Nil
  have "set (tl (str_nat a)) \<subseteq> set (str_nat a)"
    by (cases "str_nat a") auto
  then show ?thesis using Nil str_nat_no_upper
    by (auto simp: inner_upper_def capitalize_def str_lower_def)
next
  case (Cons c cs)
  then have "tl (capitalize (str_lower x) @ str_nat a)
      = str_lower (map lower_char cs) @ str_nat a"
    by (simp add: capitalize_def str_lower_def)
  then show ?thesis using str_lower_no_upper str_nat_no_upper
    by (auto simp: inner_upper_def)
qed

lemma inner_upper_nat_titles:
  "inner_upper (''EipNatGw'' @ s)" "inner_upper (''NatGw'' @ s)"
  "inner_upper (''PrivRouteTable'' @ s)" "inner_upper (''NatRoute'' @ s)"
  by (simp_all add: inner_upper_def is_upper_def ascii_uppercase_def)

lemma subnet_title_not_nat:
  "capitalize (str_lower x) @ str_nat a \<noteq> ''EipNatGw'' @ s"
  "capitalize (str_lower x) @ str_nat a \<noteq> ''NatGw'' @ s"
  "capitalize (str_lower x) @ str_nat a \<noteq> ''PrivRouteTable'' @ s"
  "capitalize (str_lower x) @ str_nat a \<noteq> ''NatRoute'' @ s"
  using capitalized_no_inner_upper [of x a] inner_upper_nat_titles [of s]
  by metis+

lemma last_str_nat_digit: "is_digit (last (str_nat n))"
  using str_nat_digits [of n] str_nat_nonempty [of n] last_in_set by blast

lemma assoc_title_not_numbered:
  "p @ str_nat a @ ''NaclAssociation'' \<noteq> q @ str_nat b"
  "p @ str_nat a @ ''RouteAssociation'' \<noteq> q @ str_nat b"
proof -
  have n: "\<not> is_digit (CHR ''n'')" by (simp add: is_digit_def)
  have l: "last (q @ str_nat b) = last (str_nat b)"
    using str_nat_nonempty by simp
  show "p @ str_nat a @ ''NaclAssociation'' \<noteq> q @ str_nat b"
  proof
    assume "p @ str_nat a @ ''NaclAssociation'' = q @ str_nat b"
    then have "last (p @ str_nat a @ ''NaclAssociation'') = last (q @ str_nat b)" by simp
    then have "CHR ''n'' = last (str_nat b)" using l by simp
    then show False using n last_str_nat_digit [of b] by simp
  qed
  show "p @ str_nat a @ ''RouteAssociation'' \<noteq> q @ str_nat b"
  proof
    assume "p @ str_nat a @ ''RouteAssociation'' = q @ str_nat b"
    then have "last (p @ str_nat a @ ''RouteAssociation'') = last (q @ str_nat b)" by simp
    then have "CHR ''n'' = last (str_nat b)" using l by simp
    then show False using n last_str_nat_digit [of b] by simp
  qed
qed

lemma length_str_upper [simp]: "length (str_upper s) = length s"
  by (simp add: str_upper_def)

lemma assoc_title_not_route:
  assumes "length u \<le> 1"
  shows "p @ str_nat a @ ''NaclAssociation'' \<noteq> ''NatRoute'' @ u"
    and "p @ str_nat a @ ''RouteAssociation'' \<noteq> ''NatRoute'' @ u"
proof -
  have "length (p @ str_nat a @ ''NaclAssociation'') \<noteq> length (''NatRoute'' @ u)"
    using assms by simp
  then show "p @ str_nat a @ ''NaclAssociation'' \<noteq> ''NatRoute'' @ u" by metis
  have "length (p @ str_nat a @ ''RouteAssociation'') \<noteq> length (''NatRoute'' @ u)"
    using assms by simp
  then show "p @ str_nat a @ ''RouteAssociation'' \<noteq> ''NatRoute'' @ u" by metis
qed

lemma upper_char_idem: "upper_char (upper_char c) = upper_char c"
proof (cases "c \<in> set ascii_lowercase")
  case True
  then show ?thesis by (auto simp: upper_char_def ascii_lowercase_def ascii_uppercase_def)
next
  case False
  then have "map_of (zip ascii_lowercase ascii_uppercase) c = None"
    by (simp add: map_of_eq_None_iff ascii_lowercase_def ascii_uppercase_def)
  then have "upper_char c = c" by (simp add: upper_char_def)
  then show ?thesis by simp
qed

lemma str_upper_idem: "str_upper (str_upper s) = str_upper s"
  by (simp add: str_upper_def upper_char_idem)

lemma upper_char_alnum: "is_alnum c \<Longrightarrow> is_alnum (upper_char c)"
  by (auto simp: is_alnum_def upper_char_def ascii_lowercase_def ascii_uppercase_def)

lemma last_char_last: "z \<noteq> [] \<Longrightarrow> last_char z = [last z]"
  by (induction z rule: rev_induct) (simp_all add: last_char_def)

text \<open>The title of a NAT route passes the check when the zone ends in a letter or digit.\<close>

lemma nat_route_title_valid:
  assumes "z \<noteq> []" and "is_alnum (last z)"
  shows "valid_names (''NatRoute'' @ str_upper (str_upper (last_char z)))"
proof -
  have a: "is_alnum (upper_char (last z))" using assms(2) by (rule upper_char_alnum)
  then have n: "upper_char (last z) \<noteq> CHR 0x0A"
    by (auto simp: is_alnum_def ascii_lowercase_def ascii_uppercase_def)
  have l: "list_all is_alnum ''NatRoute''"
    by (simp add: is_alnum_def ascii_lowercase_def ascii_uppercase_def)
  show ?thesis
    using a n l
    by (simp add: valid_names_def last_char_last [OF assms(1)] str_upper_def upper_char_idem)
qed

lemma add_nat_gateway_eq:
  assumes "Metadata subnet = Some md"
    and "valid_names (''NatRoute'' @ str_upper (m_az_index md))"
  shows "add_nat_gateway subnet self
     = (None, self\<lparr>v_r := apply_writes (v_r self)
                  [(title (nat_eip md), nat_eip md),
                   (title (nat_gateway subnet md), nat_gateway subnet md),
                   (title (nat_route_table (v_vpc self) md), nat_route_table (v_vpc self) md),
                   (title (nat_route (nat_route_table (v_vpc self) md) (nat_gateway subnet md) md),
                    nat_route (nat_route_table (v_vpc self) md) (nat_gateway subnet md) md)],
                v_nat_gateways := v_nat_gateways self @ [nat_gateway subnet md],
                v_natted_route_tables :=
                  v_natted_route_tables self @ [nat_route_table (v_vpc self) md]\<rparr>)"
  using assms by (simp add: add_nat_gateway_def validate_title_def Let_def)

lemma public_other:
  "rtype res \<noteq> ''AWS::EC2::Subnet'' \<Longrightarrow> public_writes vpc res = [(title res, res)]"
  "rtype res \<noteq> ''AWS::EC2::Subnet'' \<Longrightarrow> public_gateways res = []"
  "rtype res \<noteq> ''AWS::EC2::Subnet'' \<Longrightarrow> public_tables vpc res = []"
  by (simp_all add: public_writes_def public_gateways_def public_tables_def)

lemma public_subnet:
  "rtype res = ''AWS::EC2::Subnet'' \<Longrightarrow> Metadata res = Some md \<Longrightarrow>
     public_writes vpc res
       = [(title res, res),
          (title (nat_eip md), nat_eip md),
          (title (nat_gateway res md), nat_gateway res md),
          (title (nat_route_table vpc md), nat_route_table vpc md),
          (title (nat_route (nat_route_table vpc md) (nat_gateway res md) md),
           nat_route (nat_route_table vpc md) (nat_gateway res md) md)]"
  "rtype res = ''AWS::EC2::Subnet'' \<Longrightarrow> Metadata res = Some md \<Longrightarrow>
     public_gateways res = [nat_gateway res md]"
  "rtype res = ''AWS::EC2::Subnet'' \<Longrightarrow> Metadata res = Some md \<Longrightarrow>
     public_tables vpc res = [nat_route_table vpc md]"
  by (simp_all add: public_writes_def public_gateways_def public_tables_def)

lemma public_loop_ok:
  assumes "\<forall>res \<in> set rs. rtype res = ''AWS::EC2::Subnet'' \<longrightarrow>
      (\<exists>md. Metadata res = Some md \<and> valid_names (''NatRoute'' @ str_upper (m_az_index md)))"
  shows "public_subnets_loop True rs self
     = (None :: 'e error option,
        self\<lparr>v_r := apply_writes (v_r self) (concat (map (public_writes (v_vpc self)) rs)),
             v_nat_gateways := v_nat_gateways self @ concat (map public_gateways rs),
             v_natted_route_tables :=
               v_natted_route_tables self @ concat (map (public_tables (v_vpc self)) rs)\<rparr>)"
  using assms
proof (induction rs arbitrary: self)
  case Nil
  show ?case by simp
next
  case (Cons res rest)
  define self1 where "self1 = self\<lparr>v_r := (v_r self)(title res \<mapsto> res)\<rparr>"
  have rest: "\<forall>res \<in> set rest. rtype res = ''AWS::EC2::Subnet'' \<longrightarrow>
      (\<exists>md. Metadata res = Some md \<and> valid_names (''NatRoute'' @ str_upper (m_az_index md)))"
    using Cons.prems by simp
  show ?case
  proof (cases "rtype res = ''AWS::EC2::Subnet''")
    case False
    have "public_subnets_loop True (res # rest) self
        = (public_subnets_loop True rest self1 :: 'e error option \<times> VpcTemplate)"
      using False by (simp add: Let_def self1_def)
    also have "\<dots> = (None,
        self1\<lparr>v_r := apply_writes (v_r self1) (concat (map (public_writes (v_vpc self1)) rest)),
             v_nat_gateways := v_nat_gateways self1 @ concat (map public_gateways rest),
             v_natted_route_tables :=
               v_natted_route_tables self1 @ concat (map (public_tables (v_vpc self1)) rest)\<rparr>)"
      using rest by (rule Cons.IH)
    finally show ?thesis using False
      by (simp add: self1_def public_other)
  next
    case True
    then obtain md where md: "Metadata res = Some md"
      and v: "valid_names (''NatRoute'' @ str_upper (m_az_index md))"
      using Cons.prems by auto
    define self2 where "self2 = self1\<lparr>v_r := apply_writes (v_r self1)
                  [(title (nat_eip md), nat_eip md),
                   (title (nat_gateway res md), nat_gateway res md),
                   (title (nat_route_table (v_vpc self1) md), nat_route_table (v_vpc self1) md),
                   (title (nat_route (nat_route_table (v_vpc self1) md) (nat_gateway res md) md),
                    nat_route (nat_route_table (v_vpc self1) md) (nat_gateway res md) md)],
                v_nat_gateways := v_nat_gateways self1 @ [nat_gateway res md],
                v_natted_route_tables :=
                  v_natted_route_tables self1 @ [nat_route_table (v_vpc self1) md]\<rparr>"
    have g: "add_nat_gateway res self1 = (None :: 'e error option, self2)"
      unfolding self2_def using md v by (rule add_nat_gateway_eq)
    have "public_subnets_loop True (res # rest) self
        = (public_subnets_loop True rest self2 :: 'e error option \<times> VpcTemplate)"
      using True g by (simp add: Let_def self1_def [symmetric])
    also have "\<dots> = (None,
        self2\<lparr>v_r := apply_writes (v_r self2) (concat (map (public_writes (v_vpc self2)) rest)),
             v_nat_gateways := v_nat_gateways self2 @ concat (map public_gateways rest),
             v_natted_route_tables :=
               v_natted_route_tables self2 @ concat (map (public_tables (v_vpc self2)) rest)\<rparr>)"
      using rest by (rule Cons.IH)
    finally show ?thesis using True md
      by (simp add: self2_def self1_def public_subnet)
  qed
qed

lemma nat_titles [simp]:
  "title (nat_eip md) = ''EipNatGw'' @ str_nat (m_suffix md)"
  "title (nat_gateway subnet md) = ''NatGw'' @ str_nat (m_suffix md)"
  "title (nat_route_table vpc md) = ''PrivRouteTable'' @ str_nat (m_suffix md)"
  "title (nat_route route_table nat_gw md) = ''NatRoute'' @ str_upper (m_az_index md)"
  by (simp_all add: nat_eip_def nat_gateway_def nat_route_table_def nat_route_def new_resource_def)

lemma nat_rtypes [simp]:
  "rtype (nat_eip md) = ''AWS::EC2::EIP''"
  "rtype (nat_gateway subnet md) = ''AWS::EC2::NatGateway''"
  "rtype (nat_route_table vpc md) = ''AWS::EC2::RouteTable''"
  "rtype (nat_route route_table nat_gw md) = ''AWS::EC2::Route''"
  by (simp_all add: nat_eip_def nat_gateway_def nat_route_table_def nat_route_def new_resource_def)

lemma nat_properties [simp]:
  "Properties (nat_eip md) ''Domain'' = Some (Str ''vpc'')"
  "Properties (nat_gateway subnet md) ''AllocationId'' = Some (GetAtt (nat_eip md) ''AllocationId'')"
  "Properties (nat_gateway subnet md) ''SubnetId'' = Some (Ref subnet)"
  "Properties (nat_route_table vpc md) ''VpcId'' = Some (Ref vpc)"
  "Properties (nat_route route_table nat_gw md) ''RouteTableId'' = Some (Ref route_table)"
  "Properties (nat_route route_table nat_gw md) ''DestinationCidrBlock'' = Some (Str ''0.0.0.0/0'')"
  "Properties (nat_route route_table nat_gw md) ''NatGatewayId'' = Some (Ref nat_gw)"
  by (simp_all add: nat_eip_def nat_gateway_def nat_route_table_def nat_route_def new_resource_def)

lemma nat_metadata [simp]:
  "Metadata (nat_gateway subnet md) = Some md"
  "Metadata (nat_route_table vpc md) = Some md"
  by (simp_all add: nat_gateway_def nat_route_table_def)

lemmas nat_title_neqs =
  subnet_title_not_nat [simplified]
  subnet_title_not_nat [THEN not_sym, simplified]
  assoc_title_not_numbered [of _ _ "''EipNatGw''", simplified]
  assoc_title_not_numbered [of _ _ "''NatGw''", simplified]
  assoc_title_not_numbered [of _ _ "''PrivRouteTable''", simplified]
  assoc_title_not_numbered [of _ _ "''EipNatGw''", THEN not_sym, simplified]
  assoc_title_not_numbered [of _ _ "''NatGw''", THEN not_sym, simplified]
  assoc_title_not_numbered [of _ _ "''PrivRouteTable''", THEN not_sym, simplified]
  assoc_title_not_route [simplified]
  assoc_title_not_route [THEN not_sym, simplified]

lemma public_writes_set:
  assumes sr: "\<And>i. rtype (sub i) = ''AWS::EC2::Subnet''"
    and sm: "\<And>i. Metadata (sub i) = Some (md i)"
  shows "set (concat (map (public_writes vpc) (blocks sub (Some a) (Some b) n)))
     = (\<Union>j\<in>{..<n}.
          {(title (sub j), sub j),
           (title (nat_eip (md j)), nat_eip (md j)),
           (title (nat_gateway (sub j) (md j)), nat_gateway (sub j) (md j)),
           (title (nat_route_table vpc (md j)), nat_route_table vpc (md j)),
           (title (nat_route (nat_route_table vpc (md j)) (nat_gateway (sub j) (md j)) (md j)),
            nat_route (nat_route_table vpc (md j)) (nat_gateway (sub j) (md j)) (md j)),
           (title (sub j) @ ''NaclAssociation'', nacl_association (sub j) a),
           (title (sub j) @ ''RouteAssociation'', route_association (sub j) b)})"
  by (auto simp add: set_blocks public_other public_subnet [OF sr sm] sr simp del: nat_titles)

lemma public_writes_lookup:
  fixes m :: "string \<rightharpoonup> resource" and vpc :: resource and a b :: val
  assumes st: "\<And>i. title (sub i) = capitalize (str_lower x) @ str_nat (i + 1)"
    and sr: "\<And>i. rtype (sub i) = ''AWS::EC2::Subnet''"
    and sm: "\<And>i. Metadata (sub i) = Some (md i)"
    and sx: "\<And>i. m_suffix (md i) = i + 1"
    and sl: "\<And>i. length (m_az_index (md i)) \<le> 1"
    and i: "i < n"
  defines "final \<equiv> apply_writes m (concat (map (public_writes vpc) (blocks sub (Some a) (Some b) n)))"
  shows "final (title (sub i)) = Some (sub i)"
    and "final (title (nat_eip (md i))) = Some (nat_eip (md i))"
    and "final (title (nat_gateway (sub i) (md i))) = Some (nat_gateway (sub i) (md i))"
    and "final (title (nat_route_table vpc (md i))) = Some (nat_route_table vpc (md i))"
    and "(\<forall>j<n. j \<noteq> i \<longrightarrow> str_upper (m_az_index (md j)) \<noteq> str_upper (m_az_index (md i)))
         \<Longrightarrow> final (title (nat_route (nat_route_table vpc (md i)) (nat_gateway (sub i) (md i)) (md i)))
            = Some (nat_route (nat_route_table vpc (md i)) (nat_gateway (sub i) (md i)) (md i))"
proof -
  let ?ws = "concat (map (public_writes vpc) (blocks sub (Some a) (Some b) n))"
  note ws = public_writes_set [of sub md vpc a b n, OF sr sm]
  have lu: "\<And>j. length (str_upper (m_az_index (md j))) \<le> 1" using sl by simp
  have r1: "\<And>j k p. ''NatRoute'' @ str_upper (m_az_index (md j)) \<noteq> p @ str_nat k @ ''NaclAssociation''"
    and r2: "\<And>j k p. ''NatRoute'' @ str_upper (m_az_index (md j)) \<noteq> p @ str_nat k @ ''RouteAssociation''"
    using assoc_title_not_route [OF lu] by (metis, metis)
  note neqs = st sx title_eqs nat_title_neqs r1 [simplified] r2 [simplified]
    r1 [THEN not_sym, simplified] r2 [THEN not_sym, simplified]
  show "final (title (sub i)) = Some (sub i)"
    unfolding final_def
  proof (rule apply_writes_last)
    show "(title (sub i), sub i) \<in> set ?ws" unfolding ws using i by blast
    fix v' assume "(title (sub i), v') \<in> set ?ws"
    then show "v' = sub i" unfolding ws by (auto simp: neqs)
  qed
  show "final (title (nat_eip (md i))) = Some (nat_eip (md i))"
    unfolding final_def
  proof (rule apply_writes_last)
    show "(title (nat_eip (md i)), nat_eip (md i)) \<in> set ?ws" unfolding ws using i by blast
    fix v' assume "(title (nat_eip (md i)), v') \<in> set ?ws"
    then show "v' = nat_eip (md i)" unfolding ws by (auto simp: neqs)
  qed
  show "final (title (nat_gateway (sub i) (md i))) = Some (nat_gateway (sub i) (md i))"
    unfolding final_def
  proof (rule apply_writes_last)
    show "(title (nat_gateway (sub i) (md i)), nat_gateway (sub i) (md i)) \<in> set ?ws"
      unfolding ws using i by blast
    fix v' assume "(title (nat_gateway (sub i) (md i)), v') \<in> set ?ws"
    then show "v' = nat_gateway (sub i) (md i)" unfolding ws by (auto simp: neqs)
  qed
  show "final (title (nat_route_table vpc (md i))) = Some (nat_route_table vpc (md i))"
    unfolding final_def
  proof (rule apply_writes_last)
    show "(title (nat_route_table vpc (md i)), nat_route_table vpc (md i)) \<in> set ?ws"
      unfolding ws using i by blast
    fix v' assume "(title (nat_route_table vpc (md i)), v') \<in> set ?ws"
    then show "v' = nat_route_table vpc (md i)" unfolding ws by (auto simp: neqs)
  qed
  show "final (title (nat_route (nat_route_table vpc (md i)) (nat_gateway (sub i) (md i)) (md i)))
            = Some (nat_route (nat_route_table vpc (md i)) (nat_gateway (sub i) (md i)) (md i))"
    if d: "\<forall>j<n. j \<noteq> i \<longrightarrow> str_upper (m_az_index (md j)) \<noteq> str_upper (m_az_index (md i))"
    unfolding final_def
  proof (rule apply_writes_last)
    show "(title (nat_route (nat_route_table vpc (md i)) (nat_gateway (sub i) (md i)) (md i)),
           nat_route (nat_route_table vpc (md i)) (nat_gateway (sub i) (md i)) (md i)) \<in> set ?ws"
      unfolding ws using i by blast
    fix v' assume "(title (nat_route (nat_route_table vpc (md i)) (nat_gateway (sub i) (md i)) (md i)), v') \<in> set ?ws"
    then show "v' = nat_route (nat_route_table vpc (md i)) (nat_gateway (sub i) (md i)) (md i)"
      unfolding ws using d by (auto simp: neqs)
  qed
qed

lemma blocks_gateways:
  assumes "\<And>i. rtype (sub i) = ''AWS::EC2::Subnet''" and "\<And>i. Metadata (sub i) = Some (md i)"
  shows "concat (map public_gateways (blocks sub acl rt n))
           = map (\<lambda>i. nat_gateway (sub i) (md i)) [0..<n]"
    and "concat (map (public_tables vpc) (blocks sub acl rt n))
           = map (\<lambda>i. nat_route_table vpc (md i)) [0..<n]"
proof -
  have g: "\<And>i. concat (map public_gateways (sub i
        # (case acl of None \<Rightarrow> [] | Some a \<Rightarrow> [nacl_association (sub i) a])
        @ (case rt of None \<Rightarrow> [] | Some a \<Rightarrow> [route_association (sub i) a])))
      = [nat_gateway (sub i) (md i)]"
    by (cases acl; cases rt) (simp_all add: public_subnet [OF assms] public_other)
  have t: "\<And>i. concat (map (public_tables vpc) (sub i
        # (case acl of None \<Rightarrow> [] | Some a \<Rightarrow> [nacl_association (sub i) a])
        @ (case rt of None \<Rightarrow> [] | Some a \<Rightarrow> [route_association (sub i) a])))
      = [nat_route_table vpc (md i)]"
    by (cases acl; cases rt) (simp_all add: public_subnet [OF assms] public_other)
  have c: "\<And>(f :: resource \<Rightarrow> resource list) (g :: nat \<Rightarrow> resource list) xs.
      concat (map f (concat (map g xs))) = concat (map (\<lambda>x. concat (map f (g x))) xs)"
  proof -
    fix f :: "resource \<Rightarrow> resource list" and g :: "nat \<Rightarrow> resource list" and xs
    show "concat (map f (concat (map g xs))) = concat (map (\<lambda>x. concat (map f (g x))) xs)"
      by (induction xs) auto
  qed
  show "concat (map public_gateways (blocks sub acl rt n))
           = map (\<lambda>i. nat_gateway (sub i) (md i)) [0..<n]"
    unfolding blocks_def c g by (simp add: concat_map_singleton)
  show "concat (map (public_tables vpc) (blocks sub acl rt n))
           = map (\<lambda>i. nat_route_table vpc (md i)) [0..<n]"
    unfolding blocks_def c t by (simp add: concat_map_singleton)
qed

lemma filter_map_single:
  assumes "i < n" and "\<And>j. j < n \<Longrightarrow> P (f j) = (j = i)"
  shows "filter P (map f [0..<n]) = [f i]"
proof -
  have "(\<And>j. j \<in> set xs \<Longrightarrow> P (f j) = (j = i))
      \<Longrightarrow> filter P (map f xs) = concat (map (\<lambda>j. if j = i then [f j] else []) xs)" for xs
    by (induction xs) auto
  from this [of "[0..<n]"] assms(2)
  have "filter P (map f [0..<n]) = concat (map (\<lambda>j. if j = i then [f j] else []) [0..<n])"
    by simp
  then show ?thesis using concat_map_single [OF assms(1)] by simp
qed

lemma blocks_nat_routes_valid:
  assumes "\<forall>net_segment \<in> set net_split.
      az net_segment \<noteq> [] \<and> is_alnum (last (az net_segment))"
  shows "\<forall>res \<in> set (blocks (\<lambda>i. ec2_subnet name_prefix prefix vpc_id i (net_split ! i))
                          acl rt (length net_split)).
           rtype res = ''AWS::EC2::Subnet'' \<longrightarrow>
             (\<exists>md. Metadata res = Some md
                \<and> valid_names (''NatRoute'' @ str_upper (m_az_index md)))"
proof -
  have v: "valid_names (''NatRoute'' @ str_upper (str_upper (last_char (az (net_split ! i)))))"
    if "i < length net_split" for i
  proof (rule nat_route_title_valid)
    have "net_split ! i \<in> set net_split" using that by simp
    then show "az (net_split ! i) \<noteq> []" and "is_alnum (last (az (net_split ! i)))"
      using assms by auto
  qed
  have m: "Metadata (ec2_subnet name_prefix prefix vpc_id i (net_split ! i))
      = Some \<lparr>m_az = str_lower (az (net_split ! i)),
               m_az_index = str_upper (last_char (az (net_split ! i))), m_suffix = i + 1\<rparr>" for i
    by (simp add: ec2_subnet_def Let_def)
  show ?thesis
    unfolding set_blocks using v by (cases acl; cases rt) (auto simp add: m)
qed


section \<open>Concrete runs of the VPC template\<close>

lemma example_vpc_title: "validate_title ''VPCVpc'' = None"
  by (simp add: validate_title_def valid_names_def is_alnum_def ascii_lowercase_def
      ascii_uppercase_def)

lemma example_vpc_init:
  "VpcTemplate_init ''eu-west-1'' ''10.0.0.0/16'' ''VPC'' True [] = Inr example_vpc"
  by (simp add: example_vpc_def VpcTemplate_init_def example_vpc_title)

lemma example_vpc_fields:
  "v_region example_vpc = ''eu-west-1''"
  "v_nat_gateways example_vpc = []"
  "v_natted_route_tables example_vpc = []"
  "title (v_vpc example_vpc) = ''VPCVpc''"
  "title (v_public_nacl example_vpc) = ''PubNacl''"
  "title (v_public_route_table example_vpc) = ''PubRouteTable''"
  "title (v_internal_nacl example_vpc) = ''InternalNacl''"
  by (simp_all add: example_vpc_def VpcTemplate_init_def example_vpc_title Let_def
      new_resource_def)

lemma example_vpc_no_private_route:
  "v_r example_vpc k = Some r \<Longrightarrow> Properties r ''RouteTableId'' \<noteq> Some (RefV (''PrivRouteTable'' @ s))"
  by (auto simp: example_vpc_def VpcTemplate_init_def example_vpc_title Let_def new_resource_def
      nacl_entry_def port_range_def Ref_def split: if_splits)

lemma upt_4: "[0..<4] = [0, 1, 2, 3]" "[0..<3] = [0, 1, 2]"
  by (simp_all add: upt_rec)

lemma last_char_example:
  "last_char ''eu-west-1a'' = ''a''" "last_char ''eu-west-1b'' = ''b''" "last_char ''eu-west-1c'' = ''c''"
  by (simp_all add: last_char_def)

lemma upper_example:
  "str_upper ''a'' = ''A''" "str_upper ''b'' = ''B''" "str_upper ''c'' = ''C''"
  "str_upper ''A'' = ''A''" "str_upper ''B'' = ''B''" "str_upper ''C'' = ''C''"
  by (simp_all add: str_defs)

lemma lower_example:
  "str_lower ''eu-west-1a'' = ''eu-west-1a''" "str_lower ''eu-west-1b'' = ''eu-west-1b''"
  "str_lower ''eu-west-1c'' = ''eu-west-1c''"
  by (simp_all add: str_defs)

lemma add_public_subnet_group_eq:
  assumes split:
    "split_net_across_zones lib cidr_block (v_region self) no_of_subnets = Inr net_split"
    and letters:
      "\<forall>net_segment \<in> set net_split.
         az net_segment \<noteq> [] \<and> is_alnum (last (az net_segment))"
  shows "add_public_subnet_group lib name_prefix cidr_block no_of_subnets True self
     = (None :: 'e error option,
        self\<lparr>v_r := apply_writes (v_r self)
               (concat (map (public_writes (v_vpc self))
                  (blocks (\<lambda>i. ec2_subnet name_prefix
                              (capitalize (str_lower (alphanum lib name_prefix)))
                              (Ref (v_vpc self)) i (net_split ! i))
                     (Some (Ref (v_public_nacl self))) (Some (Ref (v_public_route_table self)))
                     (length net_split)))),
             v_nat_gateways := v_nat_gateways self
               @ map (\<lambda>i. nat_gateway
                        (ec2_subnet name_prefix (capitalize (str_lower (alphanum lib name_prefix)))
                           (Ref (v_vpc self)) i (net_split ! i))
                        \<lparr>m_az = str_lower (az (net_split ! i)),
                          m_az_index = str_upper (last_char (az (net_split ! i))),
                          m_suffix = i + 1\<rparr>) [0..<length net_split],
             v_natted_route_tables := v_natted_route_tables self
               @ map (\<lambda>i. nat_route_table (v_vpc self)
                        \<lparr>m_az = str_lower (az (net_split ! i)),
                          m_az_index = str_upper (last_char (az (net_split ! i))),
                          m_suffix = i + 1\<rparr>) [0..<length net_split]\<rparr>)"
proof -
  define subnet where "subnet = (\<lambda>i. ec2_subnet name_prefix
      (capitalize (str_lower (alphanum lib name_prefix))) (Ref (v_vpc self)) i (net_split ! i))"
  define md where "md = (\<lambda>i. \<lparr>m_az = str_lower (az (net_split ! i)),
                   m_az_index = str_upper (last_char (az (net_split ! i))),
                   m_suffix = i + 1\<rparr>)"
  define resources where "resources = blocks subnet (Some (Ref (v_public_nacl self)))
      (Some (Ref (v_public_route_table self))) (length net_split)"
  have sr: "\<And>i. rtype (subnet i) = ''AWS::EC2::Subnet''"
    and sm: "\<And>i. Metadata (subnet i) = Some (md i)"
    by (simp_all add: subnet_def md_def)
  have res: "add_public_subnet_group lib name_prefix cidr_block no_of_subnets True self
      = (public_subnets_loop True resources self :: 'e error option \<times> VpcTemplate)"
    unfolding add_public_subnet_group_def multiaz_subnets_blocks split
    by (simp add: resources_def subnet_def)
  have pre: "\<forall>res \<in> set resources. rtype res = ''AWS::EC2::Subnet'' \<longrightarrow>
      (\<exists>md. Metadata res = Some md \<and> valid_names (''NatRoute'' @ str_upper (m_az_index md)))"
    unfolding resources_def subnet_def using letters by (rule blocks_nat_routes_valid)
  have "public_subnets_loop True resources self = (None :: 'e error option,
        self\<lparr>v_r := apply_writes (v_r self) (concat (map (public_writes (v_vpc self)) resources)),
             v_nat_gateways := v_nat_gateways self @ concat (map public_gateways resources),
             v_natted_route_tables :=
               v_natted_route_tables self @ concat (map (public_tables (v_vpc self)) resources)\<rparr>)"
    using pre by (rule public_loop_ok)
  then show ?thesis
    unfolding res resources_def blocks_gateways [OF sr sm]
    unfolding subnet_def md_def .
qed

lemma example_letters:
  "\<forall>net_segment \<in> set [\<lparr>az = ''eu-west-1a'', cidr = ''10.0.0.0/26''\<rparr>,
                          \<lparr>az = ''eu-west-1b'', cidr = ''10.0.0.64/26''\<rparr>,
                          \<lparr>az = ''eu-west-1c'', cidr = ''10.0.0.128/26''\<rparr>].
     az net_segment \<noteq> [] \<and> is_alnum (last (az net_segment))"
  by (simp add: is_alnum_def ascii_lowercase_def ascii_uppercase_def)

lemma example_zones:
  "distinct (map (\<lambda>net_segment. str_upper (last_char (az net_segment)))
     [\<lparr>az = ''eu-west-1a'', cidr = ''10.0.0.0/26''\<rparr>,
      \<lparr>az = ''eu-west-1b'', cidr = ''10.0.0.64/26''\<rparr>,
      \<lparr>az = ''eu-west-1c'', cidr = ''10.0.0.128/26''\<rparr>])"
  by (simp add: last_char_example upper_example)

lemma all_less_3: "(\<forall>i<3::nat. P i) \<longleftrightarrow> P 0 \<and> P (Suc 0) \<and> P (Suc (Suc 0))"
  by (auto simp: less_Suc_eq numeral_3_eq_3)

lemma example_vpc_nat_tables:
  "v_natted_route_tables example_vpc_nat
     = [nat_route_table (v_vpc example_vpc) \<lparr>m_az = ''eu-west-1a'', m_az_index = ''A'', m_suffix = 1\<rparr>,
        nat_route_table (v_vpc example_vpc) \<lparr>m_az = ''eu-west-1b'', m_az_index = ''B'', m_suffix = 2\<rparr>,
        nat_route_table (v_vpc example_vpc) \<lparr>m_az = ''eu-west-1c'', m_az_index = ''C'', m_suffix = 3\<rparr>]"
  unfolding example_vpc_nat_def add_public_subnet_group_eq [OF example_split example_letters]
  by (simp add: example_vpc_fields upt_4 last_char_example upper_example lower_example
      numeral_2_eq_2 numeral_3_eq_3)

lemma example_private_prefix:
  "capitalize (str_lower (alphanum example_lib ''private'')) = ''Private''"
  by (simp add: example_lib_def example_alphanum_def capitalize_def str_defs)

lemma metadata_az_nat_route_table [simp]:
  "metadata_az (nat_route_table vpc md) = Some (m_az md)"
  by (simp add: metadata_az_def)

theorem add_natted_subnet_group_associations_witness:
  "fst (add_natted_subnet_group example_lib ''10.0.1.0/24'' ''private'' 4 example_vpc
          :: unit error option \<times> VpcTemplate)
     = Some (NotImplementedError ''Can't find NAT gateway in eu-west-1a'')
   \<and> fst (add_natted_subnet_group example_lib ''10.0.1.0/24'' ''private'' 4 example_vpc_nat
          :: unit error option \<times> VpcTemplate) = None
   \<and> v_r (snd (add_natted_subnet_group example_lib ''10.0.1.0/24'' ''private'' 4 example_vpc_nat
          :: unit error option \<times> VpcTemplate)) ''Private2RouteAssociation''
      = Some (route_association
                (ec2_subnet ''private'' ''Private'' (Ref (v_vpc example_vpc_nat)) 1
                   \<lparr>az = ''eu-west-1b'', cidr = ''10.0.0.64/26''\<rparr>)
                (RefV ''PrivRouteTable2''))"
proof -
  let ?segs = "[\<lparr>az = ''eu-west-1a'', cidr = ''10.0.0.0/26''\<rparr>,
                \<lparr>az = ''eu-west-1b'', cidr = ''10.0.0.64/26''\<rparr>,
                \<lparr>az = ''eu-west-1c'', cidr = ''10.0.0.128/26''\<rparr>]"
  have inv1: "\<forall>route_table \<in> set (v_natted_route_tables example_vpc). Metadata route_table \<noteq> None"
    by (simp add: example_vpc_fields)
  have inv2: "\<forall>route_table \<in> set (v_natted_route_tables example_vpc_nat). Metadata route_table \<noteq> None"
    by (simp add: example_vpc_nat_tables)
  note t1 = add_natted_subnet_group_associations [where self = example_vpc and lib = example_lib
      and cidr_block = "''10.0.1.0/24''" and name_prefix = "''private''" and no_of_subnets = 4
      and net_split = ?segs, OF inv1 example_split, unfolded Let_def example_private_prefix]
  note t2 = add_natted_subnet_group_associations [where self = example_vpc_nat and lib = example_lib
      and cidr_block = "''10.0.1.0/24''" and name_prefix = "''private''" and no_of_subnets = 4
      and net_split = ?segs, OF inv2 example_split, unfolded Let_def example_private_prefix]
  from t1 have a: "\<forall>k<length ?segs.
      (\<forall>route_table \<in> set (v_natted_route_tables example_vpc).
          metadata_az route_table \<noteq> Some (str_lower (az (?segs ! k))))
      \<and> (\<forall>j<k. \<exists>route_table \<in> set (v_natted_route_tables example_vpc).
          metadata_az route_table = Some (str_lower (az (?segs ! j))))
      \<longrightarrow> fst (add_natted_subnet_group example_lib ''10.0.1.0/24'' ''private'' 4 example_vpc
             :: unit error option \<times> VpcTemplate)
          = Some (NotImplementedError (''Can't find NAT gateway in '' @ str_lower (az (?segs ! k))))"
    by (elim conjE)
  from a [rule_format, of 0]
  have 1: "fst (add_natted_subnet_group example_lib ''10.0.1.0/24'' ''private'' 4 example_vpc
          :: unit error option \<times> VpcTemplate)
     = Some (NotImplementedError ''Can't find NAT gateway in eu-west-1a'')"
    by (simp add: example_vpc_fields lower_example)
  from t2 have b: "fst (add_natted_subnet_group example_lib ''10.0.1.0/24'' ''private'' 4 example_vpc_nat
          :: unit error option \<times> VpcTemplate) = None
      \<longleftrightarrow> (\<forall>i<length ?segs. \<exists>route_table \<in> set (v_natted_route_tables example_vpc_nat).
            metadata_az route_table = Some (str_lower (az (?segs ! i))))"
    by (elim conjE)
  have 2: "fst (add_natted_subnet_group example_lib ''10.0.1.0/24'' ''private'' 4 example_vpc_nat
          :: unit error option \<times> VpcTemplate) = None"
    unfolding b by (simp add: All_less_Suc example_vpc_nat_tables lower_example)
  from t2 2 have c: "\<forall>i<length ?segs. \<exists>route_table \<in> set (v_natted_route_tables example_vpc_nat).
        metadata_az route_table
          = metadata_az (ec2_subnet ''private'' ''Private'' (Ref (v_vpc example_vpc_nat)) i (?segs ! i))
        \<and> first_table (v_natted_route_tables example_vpc_nat) (Some (str_lower (az (?segs ! i))))
            = Some route_table
        \<and> v_r (snd (add_natted_subnet_group example_lib ''10.0.1.0/24'' ''private'' 4 example_vpc_nat
              :: unit error option \<times> VpcTemplate))
             (title (ec2_subnet ''private'' ''Private'' (Ref (v_vpc example_vpc_nat)) i (?segs ! i)))
            = Some (ec2_subnet ''private'' ''Private'' (Ref (v_vpc example_vpc_nat)) i (?segs ! i))
        \<and> v_r (snd (add_natted_subnet_group example_lib ''10.0.1.0/24'' ''private'' 4 example_vpc_nat
              :: unit error option \<times> VpcTemplate))
             (title (ec2_subnet ''private'' ''Private'' (Ref (v_vpc example_vpc_nat)) i (?segs ! i))
                @ ''RouteAssociation'')
            = Some (route_association
                (ec2_subnet ''private'' ''Private'' (Ref (v_vpc example_vpc_nat)) i (?segs ! i))
                (Ref route_table))"
    by blast
  from c [rule_format, of 1] obtain route_table where
    f: "first_table (v_natted_route_tables example_vpc_nat) (Some (str_lower (az (?segs ! 1))))
            = Some route_table"
    and v: "v_r (snd (add_natted_subnet_group example_lib ''10.0.1.0/24'' ''private'' 4 example_vpc_nat
              :: unit error option \<times> VpcTemplate))
             (title (ec2_subnet ''private'' ''Private'' (Ref (v_vpc example_vpc_nat)) 1 (?segs ! 1))
                @ ''RouteAssociation'')
            = Some (route_association
                (ec2_subnet ''private'' ''Private'' (Ref (v_vpc example_vpc_nat)) 1 (?segs ! 1))
                (Ref route_table))"
    by auto
  have "Ref route_table = RefV ''PrivRouteTable2''"
    using f by (auto simp: first_table_def example_vpc_nat_tables lower_example Ref_def)
  with v have 3: "v_r (snd (add_natted_subnet_group example_lib ''10.0.1.0/24'' ''private'' 4 example_vpc_nat
          :: unit error option \<times> VpcTemplate)) ''Private2RouteAssociation''
      = Some (route_association
                (ec2_subnet ''private'' ''Private'' (Ref (v_vpc example_vpc_nat)) 1
                   \<lparr>az = ''eu-west-1b'', cidr = ''10.0.0.64/26''\<rparr>)
                (RefV ''PrivRouteTable2''))"
    by simp
  from 1 2 3 show ?thesis by (intro conjI)
qed

lemma example_public_prefix:
  "capitalize (str_lower (alphanum example_lib ''public'')) = ''Public''"
  by (simp add: example_lib_def example_alphanum_def capitalize_def str_defs)

lemma apply_writes_cases:
  "apply_writes m ws k = Some v \<Longrightarrow> (k, v) \<in> set ws \<or> m k = Some v"
  by (induction ws rule: rev_induct) (auto split: if_splits)

lemma no_route_table_id [simp]:
  "Properties (ec2_subnet name_prefix prefix v i seg) ''RouteTableId'' = None"
  "Properties (nat_eip md) ''RouteTableId'' = None"
  "Properties (nat_gateway subnet md) ''RouteTableId'' = None"
  "Properties (nat_route_table vpc md) ''RouteTableId'' = None"
  "Properties (nacl_association subnet a) ''RouteTableId'' = None"
  by (simp_all add: ec2_subnet_def nat_eip_def nat_gateway_def nat_route_table_def
      nacl_association_def new_resource_def Let_def)


text \<open>
  Titles that the library rejects: a VPC name with a hyphen makes the constructor raise,
  and a zone name that ends in a hyphen makes \<^verbatim>\<open>add_public_subnet_group\<close> raise at the
  route, after the route table of the subnet was stored.
\<close>

lemma VpcTemplate_init_rejected_name:
  \<open>(VpcTemplate_init ''eu-west-1'' ''10.0.0.0/16'' ''my-vpc'' True [] :: unit error + VpcTemplate)
     = Inl (ValueError ''Name "my-vpcVpc" not alphanumeric'')\<close>
  by (simp add: VpcTemplate_init_def validate_title_def valid_names_def is_alnum_def
      ascii_lowercase_def ascii_uppercase_def)

lemma add_public_subnet_group_rejected_zone:
  \<open>fst (add_public_subnet_group hyphen_lib ''public'' ''10.0.0.0/24'' 4 True example_vpc)
     = Some (ValueError ''Name "NatRoute-" not alphanumeric'')
   \<and> map title (v_natted_route_tables
         (snd (add_public_subnet_group hyphen_lib ''public'' ''10.0.0.0/24'' 4 True example_vpc
                 :: unit error option \<times> VpcTemplate))) = [''PrivRouteTable1'']
   \<and> v_r (snd (add_public_subnet_group hyphen_lib ''public'' ''10.0.0.0/24'' 4 True example_vpc
                 :: unit error option \<times> VpcTemplate)) ''PrivRouteTable1'' \<noteq> None
   \<and> v_r (snd (add_public_subnet_group hyphen_lib ''public'' ''10.0.0.0/24'' 4 True example_vpc
                 :: unit error option \<times> VpcTemplate)) ''NatRoute-'' = None\<close>
proof -
  have r: "v_r example_vpc ''NatRoute-'' = None"
    by (simp add: example_vpc_def VpcTemplate_init_def example_vpc_title Let_def)
  have s: "split_net_across_zones hyphen_lib ''10.0.0.0/24'' (v_region example_vpc) 4
      = Inr [\<lparr>az = ''eu-west-1-'', cidr = ''10.0.0.0/26''\<rparr>]"
    by (simp add: hyphen_lib_def)
  show ?thesis
    unfolding add_public_subnet_group_def multiaz_subnets_blocks s
    using r
    by (simp add: blocks_def add_nat_gateway_def validate_title_def valid_names_def is_alnum_def
        ascii_lowercase_def ascii_uppercase_def last_char_def str_upper_def upper_char_def
        example_vpc_fields Let_def)
qed

text \<open>
  The hypothesis on the natted route tables is an invariant of the class: the constructor
  starts with no natted route table, only \<^verbatim>\<open>add_public_subnet_group\<close> appends any, each
  with its metadata (also when it raises on the way), and \<^verbatim>\<open>add_natted_subnet_group\<close>
  leaves the list alone.
\<close>

lemma init_no_natted_tables:
  "VpcTemplate_init region cidr_block name internet_access_enabled internal_networks = Inr self
     \<Longrightarrow> v_natted_route_tables self = []"
  by (auto simp add: VpcTemplate_init_def Let_def split: option.splits)

lemma public_loop_tables_unchanged:
  "v_natted_route_tables (snd (public_subnets_loop False rs self)) = v_natted_route_tables self"
  by (induction rs arbitrary: self) (simp_all add: Let_def)

lemma add_nat_gateway_keeps_metadata:
  assumes "\<forall>route_table \<in> set (v_natted_route_tables self). Metadata route_table \<noteq> None"
  shows "\<forall>route_table \<in> set (v_natted_route_tables (snd (add_nat_gateway res self))).
           Metadata route_table \<noteq> None"
  using assms
  by (auto simp add: add_nat_gateway_def Let_def split: option.splits)

lemma public_loop_keeps_metadata:
  assumes "\<forall>route_table \<in> set (v_natted_route_tables self). Metadata route_table \<noteq> None"
  shows "\<forall>route_table \<in> set (v_natted_route_tables
           (snd (public_subnets_loop create_nat_gateways rs self
                   :: 'e error option \<times> VpcTemplate))).
           Metadata route_table \<noteq> None"
  using assms
proof (induction rs arbitrary: self)
  case Nil
  then show ?case by simp
next
  case (Cons res rest)
  define self1 where "self1 = self\<lparr>v_r := (v_r self)(title res \<mapsto> res)\<rparr>"
  have inv1: "\<forall>route_table \<in> set (v_natted_route_tables self1). Metadata route_table \<noteq> None"
    using Cons.prems by (simp add: self1_def)
  show ?case
  proof (cases "create_nat_gateways \<and> rtype res = ''AWS::EC2::Subnet''")
    case False
    then have eq: "public_subnets_loop create_nat_gateways (res # rest) self
        = (public_subnets_loop create_nat_gateways rest self1 :: 'e error option \<times> VpcTemplate)"
      by (auto simp add: Let_def self1_def)
    show ?thesis unfolding eq by (rule Cons.IH [OF inv1])
  next
    case True
    obtain e :: "'e error option" and self2 where g: "add_nat_gateway res self1 = (e, self2)"
      by (cases "add_nat_gateway res self1 :: 'e error option \<times> VpcTemplate")
    have inv2: "\<forall>route_table \<in> set (v_natted_route_tables self2). Metadata route_table \<noteq> None"
      using add_nat_gateway_keeps_metadata [OF inv1, of res, where 'a = 'e] g by simp
    show ?thesis
    proof (cases e)
      case None
      then have eq: "public_subnets_loop create_nat_gateways (res # rest) self
          = (public_subnets_loop create_nat_gateways rest self2 :: 'e error option \<times> VpcTemplate)"
        using True g by (simp add: Let_def self1_def [symmetric])
      show ?thesis unfolding eq by (rule Cons.IH [OF inv2])
    next
      case (Some err)
      then have eq: "public_subnets_loop create_nat_gateways (res # rest) self = (Some err, self2)"
        using True g by (simp add: Let_def self1_def [symmetric])
      show ?thesis unfolding eq using inv2 by simp
    qed
  qed
qed

lemma add_public_subnet_group_keeps_metadata:
  assumes "\<forall>route_table \<in> set (v_natted_route_tables self). Metadata route_table \<noteq> None"
  shows "\<forall>route_table \<in> set (v_natted_route_tables
           (snd (add_public_subnet_group lib name_prefix cidr_block no_of_subnets
                   create_nat_gateways self))).
           Metadata route_table \<noteq> None"
proof (cases "multiaz_subnets lib name_prefix cidr_block (v_region self) (Some (v_vpc self)) None
             no_of_subnets (Some (v_public_nacl self)) None
             (Some (v_public_route_table self)) None")
  case (Inl e)
  then show ?thesis using assms by (simp add: add_public_subnet_group_def)
next
  case (Inr resources)
  then show ?thesis
    using public_loop_keeps_metadata [OF assms, of create_nat_gateways resources]
    by (simp add: add_public_subnet_group_def)
qed

lemma natted_loop_tables_unchanged:
  "v_natted_route_tables (snd (natted_subnets_loop rs self)) = v_natted_route_tables self"
  by (induction rs arbitrary: self) (simp_all add: Let_def split: sum.splits option.splits)

lemma add_natted_subnet_group_tables_unchanged:
  "v_natted_route_tables (snd (add_natted_subnet_group lib cidr_block name_prefix no_of_subnets self))
     = v_natted_route_tables self"
  by (simp add: add_natted_subnet_group_def natted_loop_tables_unchanged split: sum.splits)

end
